theory Spec2Isabelle
  imports Main "HOL-Library.Log_Nat"
begin

section \<open>Python values and exceptions\<close>

text \<open>
  The enumerations \<open>Role\<close> and \<open>Department\<close> of \<^verbatim>\<open>employee.py\<close>.
\<close>

datatype Role = CEO | CFO | CIO

datatype Department = ACCOUNTING | FINANCE | HR | R_AND_D | MACHINING

text \<open>
  A Python \<open>float\<close> is an IEEE double: a finite value (kept as the rational it denotes),
  an infinity or NaN. The sign of zero is not kept: no operation of the module tells
  \<open>-0.0\<close> from \<open>0.0\<close> except its printed form.
\<close>

datatype pyfloat = Fin rat | PosInf | NegInf | NaN

text \<open>
  The values a caller can hand to a constructor or a setter. Strings are lists of
  characters with code points below 256.
\<close>

datatype pyval =
    PNone
  | PBool bool
  | PInt int
  | PFloat pyfloat
  | PStr string
  | PRole Role
  | PDept Department

text \<open>
  An exception carries its class and its message. \<open>Msg\<close> is a message written in
  \<^verbatim>\<open>employee.py\<close>; \<open>RuntimeMsg\<close> stands for the text the interpreter or the standard
  library produces, which is not modelled.
\<close>

datatype message = Msg string | RuntimeMsg

datatype error =
    ValueError message
  | TypeError message
  | OverflowError message
  | ZeroDivisionError message
  | InvalidRoleException message
  | InvalidDepartmentException message

text \<open>The outcome of a method that mutates \<open>self\<close>: what it raised, and the object after.\<close>

type_synonym 's outcome = "(error + unit) \<times> 's"

section \<open>Operators of the language used by the module\<close>

text \<open>\<open>isinstance(v, str)\<close>, \<open>isinstance(v, float)\<close>, \<open>isinstance(v, (int, float))\<close>;
  \<open>bool\<close> is a subclass of \<open>int\<close>.\<close>

fun isinstance_str :: "pyval \<Rightarrow> bool" where
  "isinstance_str (PStr s) = True"
| "isinstance_str v = False"

fun isinstance_float :: "pyval \<Rightarrow> bool" where
  "isinstance_float (PFloat f) = True"
| "isinstance_float v = False"

fun isinstance_int_float :: "pyval \<Rightarrow> bool" where
  "isinstance_int_float (PInt i) = True"
| "isinstance_int_float (PBool b) = True"
| "isinstance_int_float (PFloat f) = True"
| "isinstance_int_float v = False"

text \<open>\<open>sub in s\<close> on strings: \<open>sub\<close> occurs in \<open>s\<close> as a contiguous block.\<close>

fun starts_with :: "string \<Rightarrow> string \<Rightarrow> bool" where
  "starts_with [] s = True"
| "starts_with (c # cs) [] = False"
| "starts_with (c # cs) (d # ds) = (c = d \<and> starts_with cs ds)"

fun str_contains :: "string \<Rightarrow> string \<Rightarrow> bool" where
  "str_contains sub [] = (sub = [])"
| "str_contains sub (d # ds) = (starts_with sub (d # ds) \<or> str_contains sub ds)"

section \<open>Employee\<close>

record Employee =
  name :: pyval
  email :: pyval
  image_attr :: pyval
  id_number :: int

definition IMAGE_PLACEHOLDER :: string where
  "IMAGE_PLACEHOLDER = ''./images/placeholder.png''"

text \<open>The value of the class attribute \<open>CURRENT_ID\<close> when the module is loaded.\<close>

definition CURRENT_ID :: int where
  "CURRENT_ID = 1"

text \<open>The checks of the three property setters, in the order of the source:
  first the comparison with \<open>''\<close>, then the type test.\<close>

definition name_check :: "pyval \<Rightarrow> error + unit" where
  "name_check v =
     (if v = PStr '''' then Inl (ValueError (Msg ''Name cannot be blank.''))
      else if \<not> isinstance_str v then Inl (ValueError (Msg ''Name needs to be a string.''))
      else Inr ())"

definition email_check :: "pyval \<Rightarrow> error + unit" where
  "email_check v =
     (if v = PStr '''' then Inl (ValueError (Msg ''Email cannot be blank.''))
      else (case v of
              PStr s \<Rightarrow>
                if \<not> str_contains ''@acme-machining.com'' s
                then Inl (ValueError (Msg ''Email needs to end with @acme-machining.com''))
                else Inr ()
            | _ \<Rightarrow> Inl (ValueError (Msg ''Email needs to be a string.''))))"

definition image_check :: "pyval \<Rightarrow> error + unit" where
  "image_check v =
     (if v = PStr '''' then Inl (ValueError (Msg ''Image path cannot be blank.''))
      else if \<not> isinstance_str v then Inl (ValueError (Msg ''Image needs to be a string.''))
      else Inr ())"

text \<open>A setter runs its check and assigns only when the check raised nothing.\<close>

definition name_setter :: "pyval \<Rightarrow> 'a Employee_scheme \<Rightarrow> 'a Employee_scheme outcome" where
  "name_setter v self =
     (case name_check v of Inl e \<Rightarrow> (Inl e, self) | Inr u \<Rightarrow> (Inr (), self\<lparr>name := v\<rparr>))"

definition email_setter :: "pyval \<Rightarrow> 'a Employee_scheme \<Rightarrow> 'a Employee_scheme outcome" where
  "email_setter v self =
     (case email_check v of Inl e \<Rightarrow> (Inl e, self) | Inr u \<Rightarrow> (Inr (), self\<lparr>email := v\<rparr>))"

definition image_setter :: "pyval \<Rightarrow> 'a Employee_scheme \<Rightarrow> 'a Employee_scheme outcome" where
  "image_setter v self =
     (case image_check v of Inl e \<Rightarrow> (Inl e, self) | Inr u \<Rightarrow> (Inr (), self\<lparr>image_attr := v\<rparr>))"

text \<open>
  \<open>Employee.__init__\<close>: the three assignments through the setters, then the identity
  number from the class attribute \<open>CURRENT_ID\<close>, which is incremented last. The second
  argument and the second component of the result are \<open>CURRENT_ID\<close> before and after;
  an exception leaves a new object unreachable, so only the counter is returned with it.
\<close>

definition Employee_init :: "pyval \<Rightarrow> pyval \<Rightarrow> int \<Rightarrow> (error + Employee) \<times> int" where
  "Employee_init n e cur =
     (case name_check n of Inl err \<Rightarrow> (Inl err, cur) | Inr u \<Rightarrow>
       (case email_check e of Inl err \<Rightarrow> (Inl err, cur) | Inr u \<Rightarrow>
         (case image_check (PStr IMAGE_PLACEHOLDER) of Inl err \<Rightarrow> (Inl err, cur) | Inr u \<Rightarrow>
            (Inr \<lparr>name = n, email = e, image_attr = PStr IMAGE_PLACEHOLDER, id_number = cur\<rparr>,
             cur + 1))))"

section \<open>Numbers\<close>

text \<open>
  Comparison of a value with a numeric constant, as in \<open>yearly < 50000\<close> and
  \<open>hourly > 99.99\<close>. An \<open>int\<close>, a \<open>bool\<close> and a \<open>float\<close> are compared by their exact
  values; every comparison with NaN is false; any other operand raises \<open>TypeError\<close>.
\<close>

fun num_of :: "pyval \<Rightarrow> pyfloat option" where
  "num_of (PInt i) = Some (Fin (of_int i))"
| "num_of (PBool b) = Some (Fin (if b then 1 else 0))"
| "num_of (PFloat f) = Some f"
| "num_of v = None"

fun float_less :: "pyfloat \<Rightarrow> pyfloat \<Rightarrow> bool" where
  "float_less NaN y = False"
| "float_less x NaN = False"
| "float_less (Fin a) (Fin b) = (a < b)"
| "float_less (Fin a) PosInf = True"
| "float_less (Fin a) NegInf = False"
| "float_less PosInf y = False"
| "float_less NegInf NegInf = False"
| "float_less NegInf y = True"

text \<open>\<open>x <= y\<close> on floats.\<close>

definition float_le :: "pyfloat \<Rightarrow> pyfloat \<Rightarrow> bool" where
  "float_le x y = (float_less x y \<or> (x = y \<and> x \<noteq> NaN))"

definition py_less :: "pyval \<Rightarrow> pyfloat \<Rightarrow> error + bool" where
  "py_less v c = (case num_of v of None \<Rightarrow> Inl (TypeError RuntimeMsg)
                  | Some x \<Rightarrow> Inr (float_less x c))"

definition py_greater :: "pyval \<Rightarrow> pyfloat \<Rightarrow> error + bool" where
  "py_greater v c = (case num_of v of None \<Rightarrow> Inl (TypeError RuntimeMsg)
                     | Some x \<Rightarrow> Inr (float_less c x))"

text \<open>\<open>a or b\<close>: \<open>b\<close> is evaluated only when \<open>a\<close> is false, and an exception in
  either operand propagates.\<close>

definition py_or :: "error + bool \<Rightarrow> error + bool \<Rightarrow> error + bool" where
  "py_or a b = (case a of Inl e \<Rightarrow> Inl e | Inr x \<Rightarrow> if x then Inr True else b)"

text \<open>
  Rounding of an exact value to the nearest double, ties to the even significand:
  53 significant bits, least exponent \<open>-1022\<close> (below it the spacing stays
  \<open>2 ^ -1074\<close>), and an infinity from \<open>2 ^ 1024\<close> on. This is how a decimal literal
  such as \<open>99.99\<close> is read and how the result of a float operation is rounded.
\<close>

definition pow2 :: "int \<Rightarrow> rat" where
  "pow2 e = (if 0 \<le> e then 2 ^ nat e else 1 / 2 ^ nat (- e))"

definition round_half_even :: "rat \<Rightarrow> int" where
  "round_half_even q =
     (let f = \<lfloor>q\<rfloor>; r = q - of_int f
      in if r < 1 / 2 then f else if 1 / 2 < r then f + 1 else if even f then f else f + 1)"

definition ilog2 :: "rat \<Rightarrow> int" where
  "ilog2 q = (let k = bitlen (fst (quotient_of q)) - bitlen (snd (quotient_of q))
              in if pow2 k \<le> q then k else k - 1)"

definition float_of_rat :: "rat \<Rightarrow> pyfloat" where
  "float_of_rat q =
     (if q = 0 then Fin 0
      else let a = \<bar>q\<bar>;
               e = max (ilog2 a) (- 1022);
               ulp = pow2 (e - 52);
               r = of_int (round_half_even (a / ulp)) * ulp
           in if pow2 1024 \<le> r then (if 0 < q then PosInf else NegInf)
              else Fin (if 0 < q then r else - r))"

text \<open>Division and multiplication of floats. \<open>float_div\<close> is used with a divisor
  that is not zero (\<open>py_truediv\<close> raises before).\<close>

fun float_div :: "pyfloat \<Rightarrow> pyfloat \<Rightarrow> pyfloat" where
  "float_div NaN y = NaN"
| "float_div x NaN = NaN"
| "float_div (Fin a) (Fin b) = float_of_rat (a / b)"
| "float_div (Fin a) y = Fin 0"
| "float_div PosInf (Fin b) = (if 0 < b then PosInf else NegInf)"
| "float_div NegInf (Fin b) = (if 0 < b then NegInf else PosInf)"
| "float_div x y = NaN"

fun float_mul :: "pyfloat \<Rightarrow> pyfloat \<Rightarrow> pyfloat" where
  "float_mul NaN y = NaN"
| "float_mul x NaN = NaN"
| "float_mul (Fin a) (Fin b) = float_of_rat (a * b)"
| "float_mul (Fin a) PosInf = (if a = 0 then NaN else if 0 < a then PosInf else NegInf)"
| "float_mul (Fin a) NegInf = (if a = 0 then NaN else if 0 < a then NegInf else PosInf)"
| "float_mul PosInf (Fin b) = (if b = 0 then NaN else if 0 < b then PosInf else NegInf)"
| "float_mul NegInf (Fin b) = (if b = 0 then NaN else if 0 < b then NegInf else PosInf)"
| "float_mul PosInf PosInf = PosInf"
| "float_mul NegInf NegInf = PosInf"
| "float_mul x y = NegInf"

text \<open>Conversion of an \<open>int\<close> operand to \<open>float\<close>: \<open>OverflowError\<close> when it is too
  large.\<close>

definition int_to_float :: "int \<Rightarrow> error + pyfloat" where
  "int_to_float i = (case float_of_rat (of_int i) of
                       Fin r \<Rightarrow> Inr (Fin r)
                     | _ \<Rightarrow> Inl (OverflowError RuntimeMsg))"

text \<open>\<open>v / c\<close> for a float constant \<open>c\<close>, as in \<open>self.yearly / 52.0\<close>.\<close>

definition py_truediv :: "pyval \<Rightarrow> pyfloat \<Rightarrow> error + pyval" where
  "py_truediv v c =
     (case (case v of PFloat f \<Rightarrow> Inr f
                    | PInt i \<Rightarrow> int_to_float i
                    | PBool b \<Rightarrow> Inr (Fin (if b then 1 else 0))
                    | _ \<Rightarrow> Inl (TypeError RuntimeMsg)) of
        Inl e \<Rightarrow> Inl e
      | Inr x \<Rightarrow> if c = Fin 0 then Inl (ZeroDivisionError RuntimeMsg)
                 else Inr (PFloat (float_div x c)))"

text \<open>\<open>v * n\<close> for an int constant \<open>n\<close>, as in \<open>self.hourly * 40\<close>: exact on ints,
  rounded on floats, repetition on strings.\<close>

definition py_mul :: "pyval \<Rightarrow> int \<Rightarrow> error + pyval" where
  "py_mul v n =
     (case v of
        PInt i \<Rightarrow> Inr (PInt (i * n))
      | PBool b \<Rightarrow> Inr (PInt ((if b then 1 else 0) * n))
      | PFloat f \<Rightarrow> (case int_to_float n of Inl e \<Rightarrow> Inl e
                      | Inr y \<Rightarrow> Inr (PFloat (float_mul f y)))
      | PStr s \<Rightarrow> Inr (PStr (concat (replicate (nat n) s)))
      | _ \<Rightarrow> Inl (TypeError RuntimeMsg))"

section \<open>Salaried and Hourly\<close>

record Salaried = Employee +
  yearly :: pyval

record Hourly = Employee +
  hourly :: pyval

definition yearly_check :: "pyval \<Rightarrow> error + unit" where
  "yearly_check v =
     (case py_or (py_less v (Fin 0)) (py_less v (Fin 50000)) of
        Inl e \<Rightarrow> Inl e
      | Inr b \<Rightarrow>
          if b then Inl (ValueError (Msg ''Yearly cannot be less than zero or less than 50000.''))
          else if \<not> isinstance_float v then Inl (ValueError (Msg ''Yearly needs to be an float.''))
          else Inr ())"

definition yearly_setter :: "pyval \<Rightarrow> 'a Salaried_scheme \<Rightarrow> 'a Salaried_scheme outcome" where
  "yearly_setter v self =
     (case yearly_check v of Inl e \<Rightarrow> (Inl e, self) | Inr u \<Rightarrow> (Inr (), self\<lparr>yearly := v\<rparr>))"

definition hourly_check :: "pyval \<Rightarrow> error + unit" where
  "hourly_check v =
     (case py_or (py_less v (Fin 15)) (py_greater v (float_of_rat (9999 / 100))) of
        Inl e \<Rightarrow> Inl e
      | Inr b \<Rightarrow>
          if b then Inl (ValueError (Msg ''Hourly needs to be between 15 and 99.99.''))
          else if \<not> isinstance_int_float v
            then Inl (ValueError (Msg ''Hourly needs to be either an integer or a float.''))
          else Inr ())"

definition hourly_setter :: "pyval \<Rightarrow> 'a Hourly_scheme \<Rightarrow> 'a Hourly_scheme outcome" where
  "hourly_setter v self =
     (case hourly_check v of Inl e \<Rightarrow> (Inl e, self) | Inr u \<Rightarrow> (Inr (), self\<lparr>hourly := v\<rparr>))"

text \<open>The constructors call the parent's \<open>__init__\<close> first, which takes the identity
  number, and assign their own field afterwards.\<close>

definition Salaried_init :: "pyval \<Rightarrow> pyval \<Rightarrow> pyval \<Rightarrow> int \<Rightarrow> (error + Salaried) \<times> int" where
  "Salaried_init n e y cur =
     (case Employee_init n e cur of
        (Inl err, c) \<Rightarrow> (Inl err, c)
      | (Inr emp, c) \<Rightarrow>
          (case yearly_check y of
             Inl err \<Rightarrow> (Inl err, c)
           | Inr u \<Rightarrow> (Inr (Employee.extend emp (Salaried.fields y)), c)))"

definition Hourly_init :: "pyval \<Rightarrow> pyval \<Rightarrow> pyval \<Rightarrow> int \<Rightarrow> (error + Hourly) \<times> int" where
  "Hourly_init n e h cur =
     (case Employee_init n e cur of
        (Inl err, c) \<Rightarrow> (Inl err, c)
      | (Inr emp, c) \<Rightarrow>
          (case hourly_check h of
             Inl err \<Rightarrow> (Inl err, c)
           | Inr u \<Rightarrow> (Inr (Employee.extend emp (Hourly.fields h)), c)))"

text \<open>\<open>calc_pay\<close> is defined in \<open>Salaried\<close> and in \<open>Hourly\<close> and nowhere below them, so
  each is one function on every extension of its record.\<close>

definition Salaried_calc_pay :: "'a Salaried_scheme \<Rightarrow> error + pyval" where
  "Salaried_calc_pay self = py_truediv (yearly self) (Fin 52)"

definition Hourly_calc_pay :: "'a Hourly_scheme \<Rightarrow> error + pyval" where
  "Hourly_calc_pay self = py_mul (hourly self) 40"

section \<open>Executive and Manager\<close>

text \<open>
  \<open>role not in Role\<close> asks the enumeration class whether it contains the value. What the
  class answers for a value that is not an enumeration member depends on the version of
  the language: up to 3.7 it answers \<open>False\<close>; from 3.8 to 3.11 it raises \<open>TypeError\<close>
  unless the value is a member of some enumeration; from 3.12 on it answers \<open>True\<close> also
  for a value that is equal to the value of one of its members.
\<close>

datatype py_version = Py_3_7_or_older | Py_3_8_to_3_11 | Py_3_12_or_newer

fun Role_value :: "Role \<Rightarrow> int" where
  "Role_value CEO = 0"
| "Role_value CFO = 1"
| "Role_value CIO = 2"

fun Department_value :: "Department \<Rightarrow> int" where
  "Department_value ACCOUNTING = 0"
| "Department_value FINANCE = 1"
| "Department_value HR = 2"
| "Department_value R_AND_D = 3"
| "Department_value MACHINING = 4"

text \<open>\<open>v == k\<close> for an int \<open>k\<close>: numbers are equal by value, anything else differs.\<close>

fun eq_int :: "pyval \<Rightarrow> int \<Rightarrow> bool" where
  "eq_int (PInt i) k = (i = k)"
| "eq_int (PBool b) k = ((if b then 1 else 0) = k)"
| "eq_int (PFloat (Fin q)) k = (q = of_int k)"
| "eq_int v k = False"

fun in_Role :: "py_version \<Rightarrow> pyval \<Rightarrow> error + bool" where
  "in_Role ver (PRole r) = Inr True"
| "in_Role Py_3_7_or_older v = Inr False"
| "in_Role Py_3_8_to_3_11 (PDept d) = Inr False"
| "in_Role Py_3_8_to_3_11 v = Inl (TypeError RuntimeMsg)"
| "in_Role Py_3_12_or_newer v = Inr (list_ex (\<lambda>r. eq_int v (Role_value r)) [CEO, CFO, CIO])"

fun in_Department :: "py_version \<Rightarrow> pyval \<Rightarrow> error + bool" where
  "in_Department ver (PDept d) = Inr True"
| "in_Department Py_3_7_or_older v = Inr False"
| "in_Department Py_3_8_to_3_11 (PRole r) = Inr False"
| "in_Department Py_3_8_to_3_11 v = Inl (TypeError RuntimeMsg)"
| "in_Department Py_3_12_or_newer v =
     Inr (list_ex (\<lambda>d. eq_int v (Department_value d))
            [ACCOUNTING, FINANCE, HR, R_AND_D, MACHINING])"

record Executive = Salaried +
  role :: pyval

record Manager = Salaried +
  department :: pyval

definition role_check :: "py_version \<Rightarrow> pyval \<Rightarrow> error + unit" where
  "role_check ver v =
     (case in_Role ver v of
        Inl e \<Rightarrow> Inl e
      | Inr b \<Rightarrow> if \<not> b then Inl (InvalidRoleException (Msg ''Role needs to be a valid role.''))
                 else Inr ())"

definition role_setter :: "py_version \<Rightarrow> pyval \<Rightarrow> 'a Executive_scheme \<Rightarrow> 'a Executive_scheme outcome"
  where
  "role_setter ver v self =
     (case role_check ver v of Inl e \<Rightarrow> (Inl e, self) | Inr u \<Rightarrow> (Inr (), self\<lparr>role := v\<rparr>))"

definition department_check :: "py_version \<Rightarrow> pyval \<Rightarrow> error + unit" where
  "department_check ver v =
     (case in_Department ver v of
        Inl e \<Rightarrow> Inl e
      | Inr b \<Rightarrow>
          if \<not> b
          then Inl (InvalidDepartmentException (Msg ''Department needs to be a valid department.''))
          else Inr ())"

definition department_setter ::
  "py_version \<Rightarrow> pyval \<Rightarrow> 'a Manager_scheme \<Rightarrow> 'a Manager_scheme outcome" where
  "department_setter ver v self =
     (case department_check ver v of Inl e \<Rightarrow> (Inl e, self)
      | Inr u \<Rightarrow> (Inr (), self\<lparr>department := v\<rparr>))"

definition Executive_init ::
  "py_version \<Rightarrow> pyval \<Rightarrow> pyval \<Rightarrow> pyval \<Rightarrow> pyval \<Rightarrow> int \<Rightarrow> (error + Executive) \<times> int" where
  "Executive_init ver n e salary r cur =
     (case Salaried_init n e salary cur of
        (Inl err, c) \<Rightarrow> (Inl err, c)
      | (Inr sal, c) \<Rightarrow>
          (case role_check ver r of
             Inl err \<Rightarrow> (Inl err, c)
           | Inr u \<Rightarrow> (Inr (Salaried.extend sal (Executive.fields r)), c)))"

definition Manager_init ::
  "py_version \<Rightarrow> pyval \<Rightarrow> pyval \<Rightarrow> pyval \<Rightarrow> pyval \<Rightarrow> int \<Rightarrow> (error + Manager) \<times> int" where
  "Manager_init ver n e salary d cur =
     (case Salaried_init n e salary cur of
        (Inl err, c) \<Rightarrow> (Inl err, c)
      | (Inr sal, c) \<Rightarrow>
          (case department_check ver d of
             Inl err \<Rightarrow> (Inl err, c)
           | Inr u \<Rightarrow> (Inr (Salaried.extend sal (Manager.fields d)), c)))"

section \<open>Dates\<close>

text \<open>The value of \<open>datetime.datetime.strptime\<close>; with the format \<open>%Y-%m-%d\<close> the time of
  day is midnight.\<close>

record datetime =
  year :: int
  month :: int
  day :: int
  hour :: int
  minute :: int
  second :: int

definition is_digit :: "char \<Rightarrow> bool" where
  "is_digit c = (48 \<le> (of_char c :: nat) \<and> (of_char c :: nat) \<le> 57)"

definition digit_val :: "char \<Rightarrow> int" where
  "digit_val c = int (of_char c) - 48"

definition in_range :: "char \<Rightarrow> char \<Rightarrow> char \<Rightarrow> bool" where
  "in_range lo hi c = ((of_char lo :: nat) \<le> of_char c \<and> (of_char c :: nat) \<le> of_char hi)"

text \<open>
  \<open>strptime\<close> turns the format into the regular expression
  \<^verbatim>\<open>(?P<Y>\d\d\d\d)-(?P<m>1[0-2]|0[1-9]|[1-9])-(?P<d>3[01]|[12]\d|0[1-9]|[1-9]| [1-9])\<close>
  and matches it at the start of the text. \<open>month_alts\<close> lists what each alternative for
  the month would take, in the order the expression tries them; the first one after
  which the rest of the expression matches is the one taken. The day is last in the
  expression, so its first matching alternative is taken.
\<close>

definition month_alts :: "string \<Rightarrow> (int \<times> string) list" where
  "month_alts s =
     (case s of
        [] \<Rightarrow> []
      | [c1] \<Rightarrow> (if in_range CHR ''1'' CHR ''9'' c1 then [(digit_val c1, [])] else [])
      | c1 # c2 # r \<Rightarrow>
          (if c1 = CHR ''1'' \<and> in_range CHR ''0'' CHR ''2'' c2 then [(10 + digit_val c2, r)] else [])
          @ (if c1 = CHR ''0'' \<and> in_range CHR ''1'' CHR ''9'' c2 then [(digit_val c2, r)] else [])
          @ (if in_range CHR ''1'' CHR ''9'' c1 then [(digit_val c1, c2 # r)] else []))"

definition match_day :: "string \<Rightarrow> (int \<times> string) option" where
  "match_day s =
     (case s of
        [] \<Rightarrow> None
      | [c1] \<Rightarrow> (if in_range CHR ''1'' CHR ''9'' c1 then Some (digit_val c1, []) else None)
      | c1 # c2 # r \<Rightarrow>
          if c1 = CHR ''3'' \<and> in_range CHR ''0'' CHR ''1'' c2 then Some (30 + digit_val c2, r)
          else if in_range CHR ''1'' CHR ''2'' c1 \<and> is_digit c2
            then Some (10 * digit_val c1 + digit_val c2, r)
          else if c1 = CHR ''0'' \<and> in_range CHR ''1'' CHR ''9'' c2 then Some (digit_val c2, r)
          else if in_range CHR ''1'' CHR ''9'' c1 then Some (digit_val c1, c2 # r)
          else if c1 = CHR '' '' \<and> in_range CHR ''1'' CHR ''9'' c2 then Some (digit_val c2, r)
          else None)"

definition after_month :: "int \<times> string \<Rightarrow> (int \<times> int \<times> string) option" where
  "after_month mr =
     (case snd mr of
        [] \<Rightarrow> None
      | c # r \<Rightarrow> if c = CHR ''-'' then
                   (case match_day r of None \<Rightarrow> None | Some (d, rest) \<Rightarrow> Some (fst mr, d, rest))
                 else None)"

text \<open>The match: year, month, day and the text left after the match.\<close>

definition match_ymd :: "string \<Rightarrow> (int \<times> int \<times> int \<times> string) option" where
  "match_ymd s =
     (case s of
        y1 # y2 # y3 # y4 # c # r \<Rightarrow>
          if is_digit y1 \<and> is_digit y2 \<and> is_digit y3 \<and> is_digit y4 \<and> c = CHR ''-'' then
            (case List.map_filter after_month (month_alts r) of
               [] \<Rightarrow> None
             | (m, d, rest) # others \<Rightarrow>
                 Some (1000 * digit_val y1 + 100 * digit_val y2 + 10 * digit_val y3 + digit_val y4,
                       m, d, rest))
          else None
      | _ \<Rightarrow> None)"

definition is_leap :: "int \<Rightarrow> bool" where
  "is_leap y = (y mod 4 = 0 \<and> (y mod 100 \<noteq> 0 \<or> y mod 400 = 0))"

definition days_in_month :: "int \<Rightarrow> int \<Rightarrow> int" where
  "days_in_month y m =
     (if m = 2 then (if is_leap y then 29 else 28)
      else if m = 4 \<or> m = 6 \<or> m = 9 \<or> m = 11 then 30 else 31)"

text \<open>
  \<open>datetime.datetime.strptime(s, '%Y-%m-%d')\<close>: \<open>ValueError\<close> when the expression does not
  match, when text is left after the match, and when year, month and day are not a date
  (the year 0, a day the month does not have).
\<close>

definition strptime :: "string \<Rightarrow> error + datetime" where
  "strptime s =
     (case match_ymd s of
        None \<Rightarrow> Inl (ValueError RuntimeMsg)
      | Some (y, m, d, rest) \<Rightarrow>
          if rest \<noteq> [] then Inl (ValueError RuntimeMsg)
          else if y < 1 \<or> days_in_month y m < d then Inl (ValueError RuntimeMsg)
          else Inr \<lparr>year = y, month = m, day = d, hour = 0, minute = 0, second = 0\<rparr>)"

section \<open>Text forms of values\<close>

text \<open>\<open>str(i)\<close> for an int: decimal digits, with a minus sign when negative.\<close>

fun digits :: "nat \<Rightarrow> string" where
  "digits n = (if n < 10 then [char_of (48 + n)] else digits (n div 10) @ [char_of (48 + n mod 10)])"

declare digits.simps [simp del]

definition str_int :: "int \<Rightarrow> string" where
  "str_int i = (if i < 0 then CHR ''-'' # digits (nat (- i)) else digits (nat i))"

text \<open>
  \<open>repr(s)\<close> for a string: double quotes when the string has a single quote and no double
  quote, single quotes otherwise; the quote and the backslash are escaped, tab, line feed
  and carriage return are written \<^verbatim>\<open>\t\<close>, \<^verbatim>\<open>\n\<close>, \<^verbatim>\<open>\r\<close>, and any other character that
  is not printable is written \<^verbatim>\<open>\xhh\<close>.
\<close>

definition hex_digit :: "nat \<Rightarrow> char" where
  "hex_digit n = (if n < 10 then char_of (48 + n) else char_of (87 + n))"

definition is_printable :: "char \<Rightarrow> bool" where
  "is_printable c =
     (let n = (of_char c :: nat)
      in (32 \<le> n \<and> n < 127) \<or> (161 \<le> n \<and> n \<noteq> 173))"

definition escape_char :: "char \<Rightarrow> char \<Rightarrow> string" where
  "escape_char q c =
     (if c = q \<or> c = CHR 0x5C then [CHR 0x5C, c]
      else if c = CHR 0x09 then [CHR 0x5C, CHR ''t'']
      else if c = CHR 0x0A then [CHR 0x5C, CHR ''n'']
      else if c = CHR 0x0D then [CHR 0x5C, CHR ''r'']
      else if is_printable c then [c]
      else [CHR 0x5C, CHR ''x'', hex_digit (of_char c div 16), hex_digit (of_char c mod 16)])"

definition repr_str :: "string \<Rightarrow> string" where
  "repr_str s =
     (let q = (if CHR 0x27 \<in> set s \<and> CHR 0x22 \<notin> set s then CHR 0x22 else CHR 0x27)
      in q # concat (map (escape_char q) s) @ [q])"

fun Role_name :: "Role \<Rightarrow> string" where
  "Role_name CEO = ''CEO''"
| "Role_name CFO = ''CFO''"
| "Role_name CIO = ''CIO''"

fun Department_name :: "Department \<Rightarrow> string" where
  "Department_name ACCOUNTING = ''ACCOUNTING''"
| "Department_name FINANCE = ''FINANCE''"
| "Department_name HR = ''HR''"
| "Department_name R_AND_D = ''R_AND_D''"
| "Department_name MACHINING = ''MACHINING''"

text \<open>
  \<open>str(v)\<close> and \<open>repr(v)\<close>. The text of a float (the shortest decimal that reads back to
  it) is not modelled: it is the parameter \<open>float_str\<close>.
\<close>

fun py_str :: "(pyfloat \<Rightarrow> string) \<Rightarrow> pyval \<Rightarrow> string" where
  "py_str float_str PNone = ''None''"
| "py_str float_str (PBool b) = (if b then ''True'' else ''False'')"
| "py_str float_str (PInt i) = str_int i"
| "py_str float_str (PFloat f) = float_str f"
| "py_str float_str (PStr s) = s"
| "py_str float_str (PRole r) = ''Role.'' @ Role_name r"
| "py_str float_str (PDept d) = ''Department.'' @ Department_name d"

fun py_repr :: "(pyfloat \<Rightarrow> string) \<Rightarrow> pyval \<Rightarrow> string" where
  "py_repr float_str (PStr s) = repr_str s"
| "py_repr float_str (PRole r) =
     ''<Role.'' @ Role_name r @ '': '' @ str_int (Role_value r) @ ''>''"
| "py_repr float_str (PDept d) =
     ''<Department.'' @ Department_name d @ '': '' @ str_int (Department_value d) @ ''>''"
| "py_repr float_str v = py_str float_str v"

text \<open>\<open>str(t)\<close> for a tuple of three values.\<close>

definition str_tuple3 :: "(pyfloat \<Rightarrow> string) \<Rightarrow> pyval \<times> pyval \<times> pyval \<Rightarrow> string" where
  "str_tuple3 float_str t =
     (case t of (a, b, c) \<Rightarrow>
        ''('' @ py_repr float_str a @ '', '' @ py_repr float_str b @ '', ''
        @ py_repr float_str c @ '')'')"

text \<open>\<open>str(d)\<close> for a \<open>datetime\<close> without microseconds: \<^verbatim>\<open>YYYY-MM-DD HH:MM:SS\<close>.\<close>

definition pad :: "nat \<Rightarrow> string \<Rightarrow> string" where
  "pad w s = replicate (w - length s) CHR ''0'' @ s"

definition str_datetime :: "datetime \<Rightarrow> string" where
  "str_datetime d =
     pad 4 (str_int (year d)) @ ''-'' @ pad 2 (str_int (month d)) @ ''-'' @ pad 2 (str_int (day d))
     @ '' '' @ pad 2 (str_int (hour d)) @ '':'' @ pad 2 (str_int (minute d)) @ '':''
     @ pad 2 (str_int (second d))"

section \<open>Permanent and Temporary\<close>

record Permanent = Hourly +
  hired_date :: datetime

record Temporary = Hourly +
  last_day :: datetime

definition hired_date_setter ::
  "(pyfloat \<Rightarrow> string) \<Rightarrow> pyval \<Rightarrow> 'a Permanent_scheme \<Rightarrow> 'a Permanent_scheme outcome" where
  "hired_date_setter float_str v self =
     (case strptime (py_str float_str v) of
        Inl e \<Rightarrow> (Inl e, self)
      | Inr d \<Rightarrow> (Inr (), self\<lparr>hired_date := d\<rparr>))"

definition last_day_setter ::
  "(pyfloat \<Rightarrow> string) \<Rightarrow> pyval \<Rightarrow> 'a Temporary_scheme \<Rightarrow> 'a Temporary_scheme outcome" where
  "last_day_setter float_str v self =
     (case strptime (py_str float_str v) of
        Inl e \<Rightarrow> (Inl e, self)
      | Inr d \<Rightarrow> (Inr (), self\<lparr>last_day := d\<rparr>))"

definition Permanent_init ::
  "(pyfloat \<Rightarrow> string) \<Rightarrow> pyval \<Rightarrow> pyval \<Rightarrow> pyval \<Rightarrow> pyval \<Rightarrow> int \<Rightarrow> (error + Permanent) \<times> int"
  where
  "Permanent_init float_str n e h hired cur =
     (case Hourly_init n e h cur of
        (Inl err, c) \<Rightarrow> (Inl err, c)
      | (Inr hr, c) \<Rightarrow>
          (case strptime (py_str float_str hired) of
             Inl err \<Rightarrow> (Inl err, c)
           | Inr d \<Rightarrow> (Inr (Hourly.extend hr (Permanent.fields d)), c)))"

definition Temporary_init ::
  "(pyfloat \<Rightarrow> string) \<Rightarrow> pyval \<Rightarrow> pyval \<Rightarrow> pyval \<Rightarrow> pyval \<Rightarrow> int \<Rightarrow> (error + Temporary) \<times> int"
  where
  "Temporary_init float_str n e h lastd cur =
     (case Hourly_init n e h cur of
        (Inl err, c) \<Rightarrow> (Inl err, c)
      | (Inr hr, c) \<Rightarrow>
          (case strptime (py_str float_str lastd) of
             Inl err \<Rightarrow> (Inl err, c)
           | Inr d \<Rightarrow> (Inr (Hourly.extend hr (Temporary.fields d)), c)))"

section \<open>Display forms\<close>

text \<open>\<open>Employee.__str__\<close>, inherited by every class: concatenation raises \<open>TypeError\<close>
  when the name is not a string.\<close>

definition Employee_str :: "'a Employee_scheme \<Rightarrow> error + string" where
  "Employee_str self =
     (case name self of
        PStr s \<Rightarrow> Inr (str_int (id_number self) @ '':'' @ s)
      | _ \<Rightarrow> Inl (TypeError RuntimeMsg))"

text \<open>\<open>Employee.__repr__\<close> returns a tuple; the classes below it turn that into text
  and append to it.\<close>

definition Employee_repr :: "'a Employee_scheme \<Rightarrow> pyval \<times> pyval \<times> pyval" where
  "Employee_repr self = (name self, email self, image_attr self)"

definition Salaried_repr :: "(pyfloat \<Rightarrow> string) \<Rightarrow> 'a Salaried_scheme \<Rightarrow> string" where
  "Salaried_repr float_str self =
     str_tuple3 float_str (Employee_repr self) @ '', '' @ py_str float_str (yearly self)"

definition Hourly_repr :: "(pyfloat \<Rightarrow> string) \<Rightarrow> 'a Hourly_scheme \<Rightarrow> string" where
  "Hourly_repr float_str self =
     str_tuple3 float_str (Employee_repr self) @ '', '' @ py_str float_str (hourly self)"

definition Executive_repr :: "(pyfloat \<Rightarrow> string) \<Rightarrow> 'a Executive_scheme \<Rightarrow> string" where
  "Executive_repr float_str self =
     Salaried_repr float_str self @ '','' @ py_str float_str (role self)"

text \<open>\<open>Manager\<close> defines no \<open>__repr__\<close>: the one it has is the one of \<open>Salaried\<close>.\<close>

definition Manager_repr :: "(pyfloat \<Rightarrow> string) \<Rightarrow> 'a Manager_scheme \<Rightarrow> string" where
  "Manager_repr float_str self = Salaried_repr float_str self"

definition Permanent_repr :: "(pyfloat \<Rightarrow> string) \<Rightarrow> 'a Permanent_scheme \<Rightarrow> string" where
  "Permanent_repr float_str self =
     Hourly_repr float_str self @ '', '' @ str_datetime (hired_date self)"

definition Temporary_repr :: "(pyfloat \<Rightarrow> string) \<Rightarrow> 'a Temporary_scheme \<Rightarrow> string" where
  "Temporary_repr float_str self =
     Hourly_repr float_str self @ '', '' @ str_datetime (last_day self)"

section \<open>Sequences of constructions\<close>

text \<open>A client constructs employees one after the other; each call reads and writes
  the one \<open>CURRENT_ID\<close>. A call that raises leaves no instance.\<close>

datatype call =
    New_Salaried pyval pyval pyval
  | New_Hourly pyval pyval pyval
  | New_Executive pyval pyval pyval pyval
  | New_Manager pyval pyval pyval pyval
  | New_Permanent pyval pyval pyval pyval
  | New_Temporary pyval pyval pyval pyval

datatype employee =
    A_Salaried Salaried
  | An_Hourly Hourly
  | An_Executive Executive
  | A_Manager Manager
  | A_Permanent Permanent
  | A_Temporary Temporary

fun construct ::
  "py_version \<Rightarrow> (pyfloat \<Rightarrow> string) \<Rightarrow> call \<Rightarrow> int \<Rightarrow> (error + employee) \<times> int" where
  "construct ver float_str (New_Salaried n e y) cur =
     (case Salaried_init n e y cur of (r, c) \<Rightarrow> (map_sum id A_Salaried r, c))"
| "construct ver float_str (New_Hourly n e h) cur =
     (case Hourly_init n e h cur of (r, c) \<Rightarrow> (map_sum id An_Hourly r, c))"
| "construct ver float_str (New_Executive n e y r) cur =
     (case Executive_init ver n e y r cur of (r, c) \<Rightarrow> (map_sum id An_Executive r, c))"
| "construct ver float_str (New_Manager n e y d) cur =
     (case Manager_init ver n e y d cur of (r, c) \<Rightarrow> (map_sum id A_Manager r, c))"
| "construct ver float_str (New_Permanent n e h d) cur =
     (case Permanent_init float_str n e h d cur of (r, c) \<Rightarrow> (map_sum id A_Permanent r, c))"
| "construct ver float_str (New_Temporary n e h d) cur =
     (case Temporary_init float_str n e h d cur of (r, c) \<Rightarrow> (map_sum id A_Temporary r, c))"

fun construct_all ::
  "py_version \<Rightarrow> (pyfloat \<Rightarrow> string) \<Rightarrow> call list \<Rightarrow> int \<Rightarrow> (error + employee) list \<times> int" where
  "construct_all ver float_str [] cur = ([], cur)"
| "construct_all ver float_str (k # ks) cur =
     (case construct ver float_str k cur of
        (r, c) \<Rightarrow> (case construct_all ver float_str ks c of (rs, c') \<Rightarrow> (r # rs, c')))"

text \<open>The property \<open>id\<close> of an instance, and the ids of the instances a sequence of
  calls has made, in the order of the calls.\<close>

definition get_id :: "'a Employee_scheme \<Rightarrow> int" where
  "get_id self = id_number self"

fun employee_id :: "employee \<Rightarrow> int" where
  "employee_id (A_Salaried x) = get_id x"
| "employee_id (An_Hourly x) = get_id x"
| "employee_id (An_Executive x) = get_id x"
| "employee_id (A_Manager x) = get_id x"
| "employee_id (A_Permanent x) = get_id x"
| "employee_id (A_Temporary x) = get_id x"

fun ids_of :: "(error + employee) list \<Rightarrow> int list" where
  "ids_of [] = []"
| "ids_of (Inl e # rs) = ids_of rs"
| "ids_of (Inr x # rs) = employee_id x # ids_of rs"

text \<open>The name and the email that a call hands to \<open>Employee.__init__\<close>.\<close>

fun call_name :: "call \<Rightarrow> pyval" where
  "call_name (New_Salaried n e y) = n"
| "call_name (New_Hourly n e h) = n"
| "call_name (New_Executive n e y r) = n"
| "call_name (New_Manager n e y d) = n"
| "call_name (New_Permanent n e h d) = n"
| "call_name (New_Temporary n e h d) = n"

fun call_email :: "call \<Rightarrow> pyval" where
  "call_email (New_Salaried n e y) = e"
| "call_email (New_Hourly n e h) = e"
| "call_email (New_Executive n e y r) = e"
| "call_email (New_Manager n e y d) = e"
| "call_email (New_Permanent n e h d) = e"
| "call_email (New_Temporary n e h d) = e"

text \<open>The call \<open>x.calc_pay()\<close> on an instance runs the method its class has:
  \<open>Executive\<close> and \<open>Manager\<close> have the one of \<open>Salaried\<close>, \<open>Permanent\<close> and \<open>Temporary\<close>
  the one of \<open>Hourly\<close>.\<close>

fun calc_pay :: "employee \<Rightarrow> error + pyval" where
  "calc_pay (A_Salaried x) = Salaried_calc_pay x"
| "calc_pay (An_Hourly x) = Hourly_calc_pay x"
| "calc_pay (An_Executive x) = Salaried_calc_pay x"
| "calc_pay (A_Manager x) = Salaried_calc_pay x"
| "calc_pay (A_Permanent x) = Hourly_calc_pay x"
| "calc_pay (A_Temporary x) = Hourly_calc_pay x"

text \<open>The field \<open>yearly\<close> or \<open>hourly\<close> that the pay of an instance is computed from.\<close>

fun is_salaried :: "employee \<Rightarrow> bool" where
  "is_salaried (A_Salaried x) = True"
| "is_salaried (An_Executive x) = True"
| "is_salaried (A_Manager x) = True"
| "is_salaried x = False"

fun rate :: "employee \<Rightarrow> pyval" where
  "rate (A_Salaried x) = yearly x"
| "rate (An_Hourly x) = hourly x"
| "rate (An_Executive x) = yearly x"
| "rate (A_Manager x) = yearly x"
| "rate (A_Permanent x) = hourly x"
| "rate (A_Temporary x) = hourly x"

section \<open>Assignments to an instance\<close>

text \<open>
  An assignment \<open>x.attr = v\<close> by a client. When the class of \<open>x\<close> has the property, its
  setter runs. When it has not, the assignment gives \<open>x\<close> an attribute that no method of
  the module reads, and the fields modelled here stay as they are.
\<close>

datatype assignment =
    Set_name pyval
  | Set_email pyval
  | Set_image pyval
  | Set_yearly pyval
  | Set_hourly pyval
  | Set_role pyval
  | Set_department pyval
  | Set_hired_date pyval
  | Set_last_day pyval

fun assign ::
  "py_version \<Rightarrow> (pyfloat \<Rightarrow> string) \<Rightarrow> assignment \<Rightarrow> employee \<Rightarrow> (error + unit) \<times> employee"
  where
  "assign ver fs (Set_name v) (A_Salaried x) = apsnd A_Salaried (name_setter v x)"
| "assign ver fs (Set_name v) (An_Hourly x) = apsnd An_Hourly (name_setter v x)"
| "assign ver fs (Set_name v) (An_Executive x) = apsnd An_Executive (name_setter v x)"
| "assign ver fs (Set_name v) (A_Manager x) = apsnd A_Manager (name_setter v x)"
| "assign ver fs (Set_name v) (A_Permanent x) = apsnd A_Permanent (name_setter v x)"
| "assign ver fs (Set_name v) (A_Temporary x) = apsnd A_Temporary (name_setter v x)"
| "assign ver fs (Set_email v) (A_Salaried x) = apsnd A_Salaried (email_setter v x)"
| "assign ver fs (Set_email v) (An_Hourly x) = apsnd An_Hourly (email_setter v x)"
| "assign ver fs (Set_email v) (An_Executive x) = apsnd An_Executive (email_setter v x)"
| "assign ver fs (Set_email v) (A_Manager x) = apsnd A_Manager (email_setter v x)"
| "assign ver fs (Set_email v) (A_Permanent x) = apsnd A_Permanent (email_setter v x)"
| "assign ver fs (Set_email v) (A_Temporary x) = apsnd A_Temporary (email_setter v x)"
| "assign ver fs (Set_image v) (A_Salaried x) = apsnd A_Salaried (image_setter v x)"
| "assign ver fs (Set_image v) (An_Hourly x) = apsnd An_Hourly (image_setter v x)"
| "assign ver fs (Set_image v) (An_Executive x) = apsnd An_Executive (image_setter v x)"
| "assign ver fs (Set_image v) (A_Manager x) = apsnd A_Manager (image_setter v x)"
| "assign ver fs (Set_image v) (A_Permanent x) = apsnd A_Permanent (image_setter v x)"
| "assign ver fs (Set_image v) (A_Temporary x) = apsnd A_Temporary (image_setter v x)"
| "assign ver fs (Set_yearly v) (A_Salaried x) = apsnd A_Salaried (yearly_setter v x)"
| "assign ver fs (Set_yearly v) (An_Executive x) = apsnd An_Executive (yearly_setter v x)"
| "assign ver fs (Set_yearly v) (A_Manager x) = apsnd A_Manager (yearly_setter v x)"
| "assign ver fs (Set_hourly v) (An_Hourly x) = apsnd An_Hourly (hourly_setter v x)"
| "assign ver fs (Set_hourly v) (A_Permanent x) = apsnd A_Permanent (hourly_setter v x)"
| "assign ver fs (Set_hourly v) (A_Temporary x) = apsnd A_Temporary (hourly_setter v x)"
| "assign ver fs (Set_role v) (An_Executive x) = apsnd An_Executive (role_setter ver v x)"
| "assign ver fs (Set_department v) (A_Manager x) = apsnd A_Manager (department_setter ver v x)"
| "assign ver fs (Set_hired_date v) (A_Permanent x) =
     apsnd A_Permanent (hired_date_setter fs v x)"
| "assign ver fs (Set_last_day v) (A_Temporary x) = apsnd A_Temporary (last_day_setter fs v x)"
| "assign ver fs a x = (Inr (), x)"

text \<open>Assignments one after the other; the client goes on after an exception, with the
  object as the failed assignment left it.\<close>

fun assign_all ::
  "py_version \<Rightarrow> (pyfloat \<Rightarrow> string) \<Rightarrow> assignment list \<Rightarrow> employee
     \<Rightarrow> (error + unit) list \<times> employee" where
  "assign_all ver fs [] x = ([], x)"
| "assign_all ver fs (a # as) x =
     (case assign ver fs a x of
        (r, x') \<Rightarrow> (case assign_all ver fs as x' of (rs, x'') \<Rightarrow> (r # rs, x'')))"

text \<open>The call \<open>x.calc_pay()\<close> with the state around it: the result, the object and
  \<open>CURRENT_ID\<close> after the call. The bodies of the two methods read one field and assign
  nothing.\<close>

definition call_calc_pay :: "employee \<Rightarrow> int \<Rightarrow> (error + pyval) \<times> employee \<times> int" where
  "call_calc_pay x cur = (calc_pay x, x, cur)"

section \<open>Sample instances\<close>

text \<open>A \<open>Salaried\<close> with \<open>yearly = 104000.0\<close>, an \<open>Hourly\<close> with \<open>hourly = 20\<close> and a
  \<open>Manager\<close>, as their constructors leave them.\<close>

definition ann :: Salaried where
  "ann = \<lparr>name = PStr ''Ann'', email = PStr ''ann@acme-machining.com'',
          image_attr = PStr ''./images/placeholder.png'', id_number = 1,
          yearly = PFloat (Fin 104000)\<rparr>"

definition bob :: Hourly where
  "bob = \<lparr>name = PStr ''Bob'', email = PStr ''bob@acme-machining.com'',
          image_attr = PStr ''./images/placeholder.png'', id_number = 2,
          hourly = PInt 20\<rparr>"

definition cy :: Manager where
  "cy = \<lparr>name = PStr ''Cy'', email = PStr ''cy@acme-machining.com'',
         image_attr = PStr ''./images/placeholder.png'', id_number = 3,
         yearly = PFloat (Fin 60000), department = PDept HR\<rparr>"

definition eve :: Executive where
  "eve = \<lparr>name = PStr ''Eve'', email = PStr ''eve@acme-machining.com'',
          image_attr = PStr ''./images/placeholder.png'', id_number = 4,
          yearly = PFloat (Fin 200000), role = PRole CEO\<rparr>"

definition di :: Permanent where
  "di = \<lparr>name = PStr ''Di'', email = PStr ''di@acme-machining.com'',
         image_attr = PStr ''./images/placeholder.png'', id_number = 5,
         hourly = PInt 20,
         hired_date = \<lparr>year = 2019, month = 6, day = 3, hour = 0, minute = 0, second = 0\<rparr>\<rparr>"

definition tom :: Temporary where
  "tom = \<lparr>name = PStr ''Tom'', email = PStr ''tom@acme-machining.com'',
          image_attr = PStr ''./images/placeholder.png'', id_number = 6,
          hourly = PInt 20,
          last_day = \<lparr>year = 2019, month = 6, day = 3, hour = 0, minute = 0, second = 0\<rparr>\<rparr>"

section \<open>The date format as the specification words it\<close>

text \<open>
  A text in the form \<open>YYYY-MM-DD\<close>: four digits, a hyphen, two digits, a hyphen, two
  digits; the year, month and day it writes; and whether these are a date of the
  calendar.
\<close>

definition is_YYYY_MM_DD :: "string \<Rightarrow> bool" where
  "is_YYYY_MM_DD s =
     (case s of
        [y1, y2, y3, y4, a, m1, m2, b, d1, d2] \<Rightarrow>
          is_digit y1 \<and> is_digit y2 \<and> is_digit y3 \<and> is_digit y4 \<and> a = CHR ''-''
          \<and> is_digit m1 \<and> is_digit m2 \<and> b = CHR ''-'' \<and> is_digit d1 \<and> is_digit d2
      | _ \<Rightarrow> False)"

definition year_of :: "string \<Rightarrow> int" where
  "year_of s = 1000 * digit_val (s ! 0) + 100 * digit_val (s ! 1) + 10 * digit_val (s ! 2)
               + digit_val (s ! 3)"

definition month_of :: "string \<Rightarrow> int" where
  "month_of s = 10 * digit_val (s ! 5) + digit_val (s ! 6)"

definition day_of :: "string \<Rightarrow> int" where
  "day_of s = 10 * digit_val (s ! 8) + digit_val (s ! 9)"

definition valid_date :: "int \<Rightarrow> int \<Rightarrow> int \<Rightarrow> bool" where
  "valid_date y m d = (1 \<le> y \<and> 1 \<le> m \<and> m \<le> 12 \<and> 1 \<le> d \<and> d \<le> days_in_month y m)"

section \<open>Properties\<close>

lemma starts_with_iff: "starts_with sub s \<longleftrightarrow> (\<exists>q. s = sub @ q)"
  by (induction sub s rule: starts_with.induct) auto

lemma str_contains_iff: "str_contains sub s \<longleftrightarrow> (\<exists>p q. s = p @ sub @ q)"
proof (induction s)
  case Nil
  then show ?case by auto
next
  case (Cons d ds)
  show ?case
  proof
    assume "str_contains sub (d # ds)"
    then consider "starts_with sub (d # ds)" | "str_contains sub ds" by auto
    then show "\<exists>p q. d # ds = p @ sub @ q"
    proof cases
      case 1
      then obtain q where "d # ds = sub @ q" by (auto simp: starts_with_iff)
      then have "d # ds = [] @ sub @ q" by simp
      then show ?thesis by blast
    next
      case 2
      then obtain p q where "ds = p @ sub @ q" using Cons.IH by blast
      then have "d # ds = (d # p) @ sub @ q" by simp
      then show ?thesis by blast
    qed
  next
    assume "\<exists>p q. d # ds = p @ sub @ q"
    then obtain p q where pq: "d # ds = p @ sub @ q" by blast
    show "str_contains sub (d # ds)"
    proof (cases p)
      case Nil
      with pq have "starts_with sub (d # ds)" by (auto simp: starts_with_iff)
      then show ?thesis by simp
    next
      case (Cons a p')
      with pq have "ds = p' @ sub @ q" by simp
      then have "str_contains sub ds" using Cons.IH by blast
      then show ?thesis by simp
    qed
  qed
qed


subsection \<open>The checks on yearly and hourly\<close>

text \<open>The double that the literal \<open>99.99\<close> denotes.\<close>

lemma float_99_99: "float_of_rat (9999 / 100) = Fin (7036170730324623 / 70368744177664)"
  by code_simp

lemma yearly_check_ok_iff:
  "yearly_check v = Inr () \<longleftrightarrow> (\<exists>f. v = PFloat f \<and> \<not> float_less f (Fin 50000))"
proof (cases v)
  case (PFloat f)
  then show ?thesis
    by (cases f) (auto simp: yearly_check_def py_or_def py_less_def)
qed (auto simp: yearly_check_def py_or_def py_less_def)

lemma yearly_check_numeric:
  "num_of v \<noteq> None \<Longrightarrow> yearly_check v = Inl e \<Longrightarrow>
     e = ValueError (Msg ''Yearly cannot be less than zero or less than 50000.'')
   \<or> e = ValueError (Msg ''Yearly needs to be an float.'')"
  by (cases v) (auto simp: yearly_check_def py_or_def py_less_def split: if_splits)

lemma hourly_check_ok_iff:
  "hourly_check v = Inr () \<longleftrightarrow>
     (\<exists>i. v = PInt i \<and> 15 \<le> i \<and> i \<le> 99)
   \<or> (\<exists>f. v = PFloat f \<and> \<not> float_less f (Fin 15) \<and> \<not> float_less (float_of_rat (9999 / 100)) f)"
proof (cases v)
  case (PInt i)
  have "rat_of_int i \<le> 7036170730324623 / 70368744177664 \<longleftrightarrow> i \<le> 99"
  proof
    assume "rat_of_int i \<le> 7036170730324623 / 70368744177664"
    then have "rat_of_int i < rat_of_int 100" by simp
    then have "i < 100" by (simp only: of_int_less_iff)
    then show "i \<le> 99" by simp
  next
    assume "i \<le> 99"
    then have "rat_of_int i \<le> rat_of_int 99" by (simp only: of_int_le_iff)
    then show "rat_of_int i \<le> 7036170730324623 / 70368744177664" by simp
  qed
  with PInt show ?thesis
    by (auto simp: hourly_check_def py_or_def py_less_def py_greater_def float_99_99 not_less)
next
  case (PBool b)
  then show ?thesis by (auto simp: hourly_check_def py_or_def py_less_def py_greater_def)
next
  case (PFloat f)
  then show ?thesis
    by (auto simp: hourly_check_def py_or_def py_less_def py_greater_def)
qed (auto simp: hourly_check_def py_or_def py_less_def py_greater_def)

text \<open>Facts that evaluate the constructors on given arguments.\<close>

lemmas eval_defs = Salaried_init_def Hourly_init_def Manager_init_def Executive_init_def
  Permanent_init_def Temporary_init_def Employee_init_def name_check_def email_check_def
  image_check_def IMAGE_PLACEHOLDER_def yearly_check_def hourly_check_def py_or_def py_less_def
  py_greater_def float_99_99 role_check_def department_check_def Employee.defs Salaried.defs
  Hourly.defs Executive.defs Manager.defs Permanent.defs Temporary.defs get_id_def CURRENT_ID_def

lemmas strptime_defs = strptime_def match_ymd_def month_alts_def after_month_def match_day_def
  is_digit_def digit_val_def in_range_def List.map_filter_def days_in_month_def is_leap_def

lemma strptime_2020_01_15:
  "strptime ''2020-01-15'' =
     Inr \<lparr>year = 2020, month = 1, day = 15, hour = 0, minute = 0, second = 0\<rparr>"
  by (simp add: strptime_defs)

subsection \<open>Identity numbers\<close>

lemma Employee_init_Inr:
  "Employee_init n e cur = (Inr emp, c) \<Longrightarrow> id_number emp = cur \<and> c = cur + 1"
  by (auto simp: Employee_init_def split: sum.splits)

lemma Employee_init_Inl: "Employee_init n e cur = (Inl err, c) \<Longrightarrow> c = cur"
  by (auto simp: Employee_init_def split: sum.splits)

lemma Salaried_init_Inr:
  "Salaried_init n e y cur = (Inr s, c) \<Longrightarrow> id_number s = cur \<and> c = cur + 1"
  by (auto simp: Salaried_init_def Employee.defs dest!: Employee_init_Inr split: prod.splits sum.splits)

lemma Salaried_init_Inl:
  "Salaried_init n e y cur = (Inl err, c) \<Longrightarrow> c = cur \<or> c = cur + 1"
  by (auto simp: Salaried_init_def dest!: Employee_init_Inr Employee_init_Inl split: prod.splits sum.splits)

lemma Hourly_init_Inr:
  "Hourly_init n e y cur = (Inr s, c) \<Longrightarrow> id_number s = cur \<and> c = cur + 1"
  by (auto simp: Hourly_init_def Employee.defs dest!: Employee_init_Inr split: prod.splits sum.splits)

lemma Hourly_init_Inl:
  "Hourly_init n e y cur = (Inl err, c) \<Longrightarrow> c = cur \<or> c = cur + 1"
  by (auto simp: Hourly_init_def dest!: Employee_init_Inr Employee_init_Inl split: prod.splits sum.splits)

lemma Executive_init_Inr:
  "Executive_init ver n e y r cur = (Inr s, c) \<Longrightarrow> id_number s = cur \<and> c = cur + 1"
  by (auto simp: Executive_init_def Salaried.defs dest!: Salaried_init_Inr split: prod.splits sum.splits)

lemma Executive_init_Inl:
  "Executive_init ver n e y r cur = (Inl err, c) \<Longrightarrow> c = cur \<or> c = cur + 1"
  by (auto simp: Executive_init_def dest!: Salaried_init_Inr Salaried_init_Inl split: prod.splits sum.splits)

lemma Manager_init_Inr:
  "Manager_init ver n e y r cur = (Inr s, c) \<Longrightarrow> id_number s = cur \<and> c = cur + 1"
  by (auto simp: Manager_init_def Salaried.defs dest!: Salaried_init_Inr split: prod.splits sum.splits)

lemma Manager_init_Inl:
  "Manager_init ver n e y r cur = (Inl err, c) \<Longrightarrow> c = cur \<or> c = cur + 1"
  by (auto simp: Manager_init_def dest!: Salaried_init_Inr Salaried_init_Inl split: prod.splits sum.splits)

lemma Permanent_init_Inr:
  "Permanent_init fs n e y r cur = (Inr s, c) \<Longrightarrow> id_number s = cur \<and> c = cur + 1"
  by (auto simp: Permanent_init_def Hourly.defs dest!: Hourly_init_Inr split: prod.splits sum.splits)

lemma Permanent_init_Inl:
  "Permanent_init fs n e y r cur = (Inl err, c) \<Longrightarrow> c = cur \<or> c = cur + 1"
  by (auto simp: Permanent_init_def dest!: Hourly_init_Inr Hourly_init_Inl split: prod.splits sum.splits)

lemma Temporary_init_Inr:
  "Temporary_init fs n e y r cur = (Inr s, c) \<Longrightarrow> id_number s = cur \<and> c = cur + 1"
  by (auto simp: Temporary_init_def Hourly.defs dest!: Hourly_init_Inr split: prod.splits sum.splits)

lemma Temporary_init_Inl:
  "Temporary_init fs n e y r cur = (Inl err, c) \<Longrightarrow> c = cur \<or> c = cur + 1"
  by (auto simp: Temporary_init_def dest!: Hourly_init_Inr Hourly_init_Inl split: prod.splits sum.splits)

lemma construct_Inr:
  "construct ver fs k cur = (Inr x, c) \<Longrightarrow> employee_id x = cur \<and> c = cur + 1"
  by (cases k)
    (auto simp: get_id_def map_sum_def split: prod.splits sum.splits
      dest!: Salaried_init_Inr Hourly_init_Inr Executive_init_Inr Manager_init_Inr
        Permanent_init_Inr Temporary_init_Inr)

lemma construct_Inl:
  "construct ver fs k cur = (Inl err, c) \<Longrightarrow> c = cur \<or> c = cur + 1"
  by (cases k)
    (auto simp: map_sum_def split: prod.splits sum.splits
      dest!: Salaried_init_Inl Hourly_init_Inl Executive_init_Inl Manager_init_Inl
        Permanent_init_Inl Temporary_init_Inl)

lemma construct_all_ids:
  "construct_all ver fs ks cur = (rs, c) \<Longrightarrow>
     cur \<le> c \<and> (\<forall>i \<in> set (ids_of rs). cur \<le> i \<and> i < c) \<and> sorted_wrt (<) (ids_of rs)"
proof (induction ks arbitrary: cur rs c)
  case Nil
  then show ?case by simp
next
  case (Cons k ks)
  obtain r c1 where k: "construct ver fs k cur = (r, c1)" by (cases "construct ver fs k cur")
  obtain rs' c2 where ks: "construct_all ver fs ks c1 = (rs', c2)"
    by (cases "construct_all ver fs ks c1")
  from Cons.prems k ks have rs: "rs = r # rs'" and c: "c = c2" by auto
  from Cons.IH [OF ks] have ih: "c1 \<le> c2" "\<forall>i \<in> set (ids_of rs'). c1 \<le> i \<and> i < c2"
    "sorted_wrt (<) (ids_of rs')" by auto
  show ?case
  proof (cases r)
    case (Inl err)
    with k have "c1 = cur \<or> c1 = cur + 1" using construct_Inl by blast
    with ih Inl rs c show ?thesis by auto
  next
    case (Inr x)
    with k have "employee_id x = cur" "c1 = cur + 1" using construct_Inr by blast+
    with ih Inr rs c show ?thesis by auto
  qed
qed

lemma construct_all_length: "construct_all ver fs ks cur = (rs, c) \<Longrightarrow> length rs = length ks"
  by (induction ks arbitrary: cur rs c) (auto split: prod.splits)

lemma construct_all_success:
  "construct_all ver fs ks cur = (rs, c) \<Longrightarrow> list_all (\<lambda>r. \<not> isl r) rs \<Longrightarrow>
     ids_of rs = map (\<lambda>j. cur + int j) [0..<length ks] \<and> c = cur + int (length ks)"
proof (induction ks arbitrary: cur rs c)
  case Nil
  then show ?case by simp
next
  case (Cons k ks)
  obtain r c1 where k: "construct ver fs k cur = (r, c1)" by (cases "construct ver fs k cur")
  obtain rs' c2 where ks: "construct_all ver fs ks c1 = (rs', c2)"
    by (cases "construct_all ver fs ks c1")
  from Cons.prems k ks have rs: "rs = r # rs'" and c: "c = c2" by auto
  with Cons.prems(2) obtain x where r: "r = Inr x" and all: "list_all (\<lambda>r. \<not> isl r) rs'"
    by (cases r) auto
  from k r have x: "employee_id x = cur" "c1 = cur + 1" using construct_Inr by blast+
  from Cons.IH [OF ks all] have ih: "ids_of rs' = map (\<lambda>j. c1 + int j) [0..<length ks]"
    "c2 = c1 + int (length ks)" by auto
  have "map (\<lambda>j. cur + int j) [0..<length (k # ks)]
      = cur # map (\<lambda>j. cur + 1 + int j) [0..<length ks]"
    by (simp add: upt_conv_Cons map_Suc_upt [symmetric] del: upt_Suc)
  with ih x rs r c show ?case by simp
qed

text \<open>Every setter leaves the identity number as it is.\<close>

lemma setters_keep_id:
  "get_id (snd (name_setter v a)) = get_id a"
  "get_id (snd (email_setter v a)) = get_id a"
  "get_id (snd (image_setter v a)) = get_id a"
  "get_id (snd (yearly_setter v b)) = get_id b"
  "get_id (snd (hourly_setter v c)) = get_id c"
  "get_id (snd (role_setter ver v d)) = get_id d"
  "get_id (snd (department_setter ver v e)) = get_id e"
  "get_id (snd (hired_date_setter fs v f)) = get_id f"
  "get_id (snd (last_day_setter fs v g)) = get_id g"
  by (simp_all add: get_id_def name_setter_def email_setter_def image_setter_def
      yearly_setter_def hourly_setter_def role_setter_def department_setter_def
      hired_date_setter_def last_day_setter_def split: sum.splits)

text \<open>
  Claim C2. Whatever constructors a client calls one after the other, starting from the
  initial \<open>CURRENT_ID\<close> (which is 1), the ids of the instances made are strictly
  increasing, hence pairwise distinct, and at least 1; when every call succeeds they are
  1, 2, ..., N. The one counter serves all classes, and no setter changes an id.
\<close>

theorem ids_strictly_increasing:
  assumes "construct_all ver float_str ks CURRENT_ID = (rs, c)"
  shows "sorted_wrt (<) (ids_of rs) \<and> distinct (ids_of rs) \<and> (\<forall>i \<in> set (ids_of rs). 1 \<le> i)
       \<and> (list_all (\<lambda>r. \<not> isl r) rs \<longrightarrow> ids_of rs = map (\<lambda>j. 1 + int j) [0..<length ks])
       \<and> get_id (snd (name_setter v1 o1)) = get_id o1
       \<and> get_id (snd (email_setter v2 o2)) = get_id o2
       \<and> get_id (snd (image_setter v3 o3)) = get_id o3
       \<and> get_id (snd (yearly_setter v4 o4)) = get_id o4
       \<and> get_id (snd (hourly_setter v5 o5)) = get_id o5
       \<and> get_id (snd (role_setter ver v6 o6)) = get_id o6
       \<and> get_id (snd (department_setter ver v7 o7)) = get_id o7
       \<and> get_id (snd (hired_date_setter float_str v8 o8)) = get_id o8
       \<and> get_id (snd (last_day_setter float_str v9 o9)) = get_id o9"
proof -
  from construct_all_ids [OF assms]
  have s: "sorted_wrt (<) (ids_of rs)" and b: "\<forall>i \<in> set (ids_of rs). 1 \<le> i"
    by (auto simp: CURRENT_ID_def)
  from s have d: "distinct (ids_of rs)" by (simp add: strict_sorted_iff)
  have a: "list_all (\<lambda>r. \<not> isl r) rs \<longrightarrow> ids_of rs = map (\<lambda>j. 1 + int j) [0..<length ks]"
    using construct_all_success [OF assms] by (simp add: CURRENT_ID_def)
  from s d b a show ?thesis by (simp add: setters_keep_id)
qed

theorem ids_strictly_increasing_witness:
  "ids_of (fst (construct_all Py_3_12_or_newer (\<lambda>f. [])
      [New_Salaried (PStr ''Ann'') (PStr ''ann@acme-machining.com'') (PFloat (Fin 60000)),
       New_Hourly (PStr ''Bob'') (PStr ''bob@acme-machining.com'') (PInt 2),
       New_Manager (PStr ''Cy'') (PStr ''cy@acme-machining.com'') (PFloat (Fin 70000)) (PDept HR),
       New_Permanent (PStr ''Di'') (PStr ''di@acme-machining.com'') (PInt 20) (PStr ''2020-01-15'')]
      CURRENT_ID)) = [1, 3, 4]
   \<and> sorted_wrt (<) (ids_of (fst (construct_all Py_3_12_or_newer (\<lambda>f. [])
      [New_Salaried (PStr ''Ann'') (PStr ''ann@acme-machining.com'') (PFloat (Fin 60000)),
       New_Hourly (PStr ''Bob'') (PStr ''bob@acme-machining.com'') (PInt 2),
       New_Manager (PStr ''Cy'') (PStr ''cy@acme-machining.com'') (PFloat (Fin 70000)) (PDept HR),
       New_Permanent (PStr ''Di'') (PStr ''di@acme-machining.com'') (PInt 20) (PStr ''2020-01-15'')]
      CURRENT_ID)))"
proof -
  let ?run = "construct_all Py_3_12_or_newer (\<lambda>f. [])
      [New_Salaried (PStr ''Ann'') (PStr ''ann@acme-machining.com'') (PFloat (Fin 60000)),
       New_Hourly (PStr ''Bob'') (PStr ''bob@acme-machining.com'') (PInt 2),
       New_Manager (PStr ''Cy'') (PStr ''cy@acme-machining.com'') (PFloat (Fin 70000)) (PDept HR),
       New_Permanent (PStr ''Di'') (PStr ''di@acme-machining.com'') (PInt 20) (PStr ''2020-01-15'')]
      CURRENT_ID"
  have ev: "ids_of (fst ?run) = [1, 3, 4]" by (simp add: eval_defs strptime_2020_01_15)
  have h: "?run = (fst ?run, snd ?run)" by simp
  from ids_strictly_increasing [OF h] ev show ?thesis by simp
qed

subsection \<open>The email constraint\<close>

lemma email_check_ok_iff:
  "email_check v = Inr () \<longleftrightarrow>
     (\<exists>s. v = PStr s \<and> s \<noteq> [] \<and> (\<exists>p q. s = p @ ''@acme-machining.com'' @ q))"
  unfolding email_check_def str_contains_iff [symmetric]
  by (cases v) auto

lemma email_check_error: "email_check v = Inl e \<Longrightarrow> \<exists>m. e = ValueError (Msg m)"
  unfolding email_check_def by (cases v) (auto split: if_splits)

lemma email_check_cases: "email_check v = Inr () \<or> (\<exists>m. email_check v = Inl (ValueError (Msg m)))"
  using email_check_error [of v] by (cases "email_check v") auto

lemma name_check_str: "name_check (PStr s) = Inr () \<longleftrightarrow> s \<noteq> []"
  by (simp add: name_check_def)

lemma image_check_str: "image_check (PStr s) = Inr () \<longleftrightarrow> s \<noteq> []"
  by (simp add: image_check_def)

lemma image_check_placeholder: "image_check (PStr IMAGE_PLACEHOLDER) = Inr ()"
  by (simp add: image_check_def IMAGE_PLACEHOLDER_def)

text \<open>
  Claim C6. The email setter, at construction and at a later assignment, succeeds
  exactly when the value is a non-empty string in which \<open>@acme-machining.com\<close> occurs;
  then it stores the value, and otherwise it raises a \<open>ValueError\<close> and the object (or,
  at construction, the identity counter) is as before. \<open>bob@example.com\<close> is refused
  and \<open>bob@acme-machining.com\<close> is accepted.
\<close>

theorem email_setter_spec:
  "(fst (email_setter v self) = Inr ()) =
     (\<exists>s. v = PStr s \<and> s \<noteq> [] \<and> (\<exists>p q. s = p @ ''@acme-machining.com'' @ q))
   \<and> (email_setter v self = (Inr (), self\<lparr>email := v\<rparr>)
        \<or> (\<exists>m. email_setter v self = (Inl (ValueError (Msg m)), self)))
   \<and> ((\<exists>emp. Employee_init (PStr ''Bob'') v cur = (Inr emp, cur + 1) \<and> email emp = v) =
        (\<exists>s. v = PStr s \<and> s \<noteq> [] \<and> (\<exists>p q. s = p @ ''@acme-machining.com'' @ q)))
   \<and> fst (email_setter (PStr ''bob@example.com'') self) =
        Inl (ValueError (Msg ''Email needs to end with @acme-machining.com''))
   \<and> email_setter (PStr ''bob@acme-machining.com'') self =
        (Inr (), self\<lparr>email := PStr ''bob@acme-machining.com''\<rparr>)"
proof -
  let ?ok = "\<exists>s. v = PStr s \<and> s \<noteq> [] \<and> (\<exists>p q. s = p @ ''@acme-machining.com'' @ q)"
  have a: "(fst (email_setter v self) = Inr ()) = ?ok"
    unfolding email_check_ok_iff [symmetric] email_setter_def
    by (cases "email_check v") auto
  have b: "email_setter v self = (Inr (), self\<lparr>email := v\<rparr>)
        \<or> (\<exists>m. email_setter v self = (Inl (ValueError (Msg m)), self))"
    using email_check_cases [of v] unfolding email_setter_def by auto
  have c: "(\<exists>emp. Employee_init (PStr ''Bob'') v cur = (Inr emp, cur + 1) \<and> email emp = v) = ?ok"
    unfolding email_check_ok_iff [symmetric] Employee_init_def
    by (cases "email_check v") (auto simp: name_check_def image_check_placeholder)
  have d: "fst (email_setter (PStr ''bob@example.com'') self) =
        Inl (ValueError (Msg ''Email needs to end with @acme-machining.com''))"
    by (simp add: email_setter_def email_check_def)
  have e: "email_setter (PStr ''bob@acme-machining.com'') self =
        (Inr (), self\<lparr>email := PStr ''bob@acme-machining.com''\<rparr>)"
    by (simp add: email_setter_def email_check_def)
  from a b c d e show ?thesis by blast
qed

subsection \<open>Blank values\<close>

text \<open>The characters of Python's \<open>string.whitespace\<close>: space, tab, line feed, vertical
  tab, form feed and carriage return.\<close>

definition whitespace :: "char set" where
  "whitespace = {CHR '' '', CHR 0x09, CHR 0x0A, CHR 0x0B, CHR 0x0C, CHR 0x0D}"

text \<open>
  Claim C10. The checks on name and image refuse, among strings, only the empty string:
  every non-empty string made of whitespace only is accepted and stored by both setters,
  and accepted as a name by the constructor.
\<close>

theorem whitespace_name_image_accepted:
  assumes "s \<noteq> []" and "set s \<subseteq> whitespace"
  shows "name_setter (PStr s) self = (Inr (), self\<lparr>name := PStr s\<rparr>)
       \<and> image_setter (PStr s) self = (Inr (), self\<lparr>image_attr := PStr s\<rparr>)
       \<and> (\<exists>emp. Employee_init (PStr s) (PStr ''bob@acme-machining.com'') cur = (Inr emp, cur + 1)
              \<and> name emp = PStr s)
       \<and> (name_check (PStr t) = Inr ()) = (t \<noteq> [])
       \<and> (image_check (PStr t) = Inr ()) = (t \<noteq> [])"
proof -
  from assms(1) have n: "name_check (PStr s) = Inr ()" and i: "image_check (PStr s) = Inr ()"
    by (simp_all add: name_check_str image_check_str)
  have e: "email_check (PStr ''bob@acme-machining.com'') = Inr ()"
    by (simp add: email_check_def)
  show ?thesis
    by (simp add: name_setter_def image_setter_def Employee_init_def n i e
        image_check_placeholder name_check_str image_check_str)
qed

theorem whitespace_name_image_accepted_witness:
  "name_setter (PStr '' '')
       \<lparr>name = PStr ''Bob'', email = PStr ''bob@acme-machining.com'',
        image_attr = PStr IMAGE_PLACEHOLDER, id_number = 1\<rparr>
     = (Inr (), \<lparr>name = PStr '' '', email = PStr ''bob@acme-machining.com'',
        image_attr = PStr IMAGE_PLACEHOLDER, id_number = 1\<rparr>)
   \<and> image_setter (PStr '' '')
       \<lparr>name = PStr ''Bob'', email = PStr ''bob@acme-machining.com'',
        image_attr = PStr IMAGE_PLACEHOLDER, id_number = 1\<rparr>
     = (Inr (), \<lparr>name = PStr ''Bob'', email = PStr ''bob@acme-machining.com'',
        image_attr = PStr '' '', id_number = 1\<rparr>)"
proof -
  have h1: "'' '' \<noteq> []" by simp
  have h2: "set '' '' \<subseteq> whitespace" by (simp add: whitespace_def)
  show ?thesis
    using whitespace_name_image_accepted [OF h1 h2,
        of "\<lparr>name = PStr ''Bob'', email = PStr ''bob@acme-machining.com'',
             image_attr = PStr IMAGE_PLACEHOLDER, id_number = 1\<rparr>"]
    by simp
qed

subsection \<open>The yearly constraint\<close>

text \<open>The doubles that the literals \<open>49999.99\<close> and \<open>14.99\<close> denote.\<close>

lemma float_49999_99: "float_of_rat (4999999 / 100) = Fin (6871946299210465 / 137438953472)"
  by code_simp

lemma float_14_99: "float_of_rat (1499 / 100) = Fin (8438619801785467 / 562949953421312)"
  by code_simp

lemma yearly_setter_float:
  "yearly_setter (PFloat f) self =
     (if float_less f (Fin 50000)
      then (Inl (ValueError (Msg ''Yearly cannot be less than zero or less than 50000.'')), self)
      else (Inr (), self\<lparr>yearly := PFloat f\<rparr>))"
  by (cases f) (auto simp: yearly_setter_def yearly_check_def py_or_def py_less_def)

lemma yearly_setter_int:
  "yearly_setter (PInt i) self =
     (Inl (ValueError (Msg (if i < 50000
        then ''Yearly cannot be less than zero or less than 50000.''
        else ''Yearly needs to be an float.''))), self)"
  by (auto simp: yearly_setter_def yearly_check_def py_or_def py_less_def)

lemma yearly_setter_cases:
  "yearly_setter v self = (Inr (), self\<lparr>yearly := v\<rparr>) \<or> (\<exists>e. yearly_setter v self = (Inl e, self))"
  by (cases "yearly_check v") (auto simp: yearly_setter_def)

lemma Employee_init_ok:
  "name_check n = Inr () \<Longrightarrow> email_check e = Inr () \<Longrightarrow>
   Employee_init n e cur =
     (Inr \<lparr>name = n, email = e, image_attr = PStr IMAGE_PLACEHOLDER, id_number = cur\<rparr>, cur + 1)"
  by (simp add: Employee_init_def image_check_def IMAGE_PLACEHOLDER_def)

lemma ann_checks: "name_check (PStr ''Ann'') = Inr ()"
  "email_check (PStr ''ann@acme-machining.com'') = Inr ()"
  by (simp_all add: name_check_def email_check_def)

lemma Salaried_init_ann:
  "(\<exists>s. Salaried_init (PStr ''Ann'') (PStr ''ann@acme-machining.com'') v cur = (Inr s, cur + 1)
        \<and> yearly s = v) = (yearly_check v = Inr ())"
  by (cases "yearly_check v")
    (auto simp: Salaried_init_def Employee_init_ok ann_checks Employee.defs Salaried.defs)

text \<open>
  Claim C4 says that the yearly setter succeeds exactly when the value is a float that
  is \<open>>= 50000\<close>, and that a value of the wrong type is refused with the validation
  error. NaN is a float, is not \<open>>= 50000\<close>, and is accepted: the check refuses what is
  \<open>< 50000\<close>, and no comparison with NaN is true. A string never reaches the type test:
  the comparison raises \<open>TypeError\<close> before it.
\<close>

theorem yearly_setter_counterexample:
  "fst (yearly_setter (PFloat NaN) ann) = Inr () \<and> \<not> float_le (Fin 50000) NaN
   \<and> fst (yearly_setter (PStr ''fifty'') ann) = Inl (TypeError RuntimeMsg)"
  by (simp add: yearly_setter_def yearly_check_def py_or_def py_less_def float_le_def)

text \<open>
  Claim C4, amended. The yearly setter, at construction and at a later assignment,
  succeeds exactly when the value is a float that is not less than 50000 (a finite float
  \<open>>= 50000\<close>, an infinity above, or NaN), and then stores it; otherwise it raises and
  the object is as before. A float below 50000 is refused with the \<open>ValueError\<close> of the
  range check, an int with the \<open>ValueError\<close> of the range check or of the type test;
  \<open>49999.99\<close> is refused and \<open>50000.0\<close> is accepted.
\<close>

theorem yearly_setter_spec:
  "(fst (yearly_setter v self) = Inr ()) = (\<exists>f. v = PFloat f \<and> \<not> float_less f (Fin 50000))
   \<and> (yearly_setter v self = (Inr (), self\<lparr>yearly := v\<rparr>)
        \<or> (\<exists>e. yearly_setter v self = (Inl e, self)))
   \<and> ((\<exists>s. Salaried_init (PStr ''Ann'') (PStr ''ann@acme-machining.com'') v cur = (Inr s, cur + 1)
          \<and> yearly s = v) = (\<exists>f. v = PFloat f \<and> \<not> float_less f (Fin 50000)))
   \<and> (\<not> float_less (Fin q) (Fin 50000)) = (50000 \<le> q)
   \<and> yearly_setter (PFloat f) self =
       (if float_less f (Fin 50000)
        then (Inl (ValueError (Msg ''Yearly cannot be less than zero or less than 50000.'')), self)
        else (Inr (), self\<lparr>yearly := PFloat f\<rparr>))
   \<and> yearly_setter (PInt i) self =
       (Inl (ValueError (Msg (if i < 50000
          then ''Yearly cannot be less than zero or less than 50000.''
          else ''Yearly needs to be an float.''))), self)
   \<and> yearly_setter (PFloat (float_of_rat (4999999 / 100))) self =
       (Inl (ValueError (Msg ''Yearly cannot be less than zero or less than 50000.'')), self)
   \<and> yearly_setter (PFloat (Fin 50000)) self = (Inr (), self\<lparr>yearly := PFloat (Fin 50000)\<rparr>)"
proof -
  let ?ok = "\<exists>f. v = PFloat f \<and> \<not> float_less f (Fin 50000)"
  have a: "(fst (yearly_setter v self) = Inr ()) = ?ok"
    unfolding yearly_check_ok_iff [symmetric] yearly_setter_def
    by (cases "yearly_check v") auto
  have c: "(\<exists>s. Salaried_init (PStr ''Ann'') (PStr ''ann@acme-machining.com'') v cur = (Inr s, cur + 1)
          \<and> yearly s = v) = ?ok"
    unfolding yearly_check_ok_iff [symmetric] by (rule Salaried_init_ann)
  have d: "(\<not> float_less (Fin q) (Fin 50000)) = (50000 \<le> q)" by auto
  have g: "yearly_setter (PFloat (float_of_rat (4999999 / 100))) self =
       (Inl (ValueError (Msg ''Yearly cannot be less than zero or less than 50000.'')), self)"
    by (simp add: yearly_setter_float float_49999_99)
  have h: "yearly_setter (PFloat (Fin 50000)) self = (Inr (), self\<lparr>yearly := PFloat (Fin 50000)\<rparr>)"
    by (simp add: yearly_setter_float)
  from a yearly_setter_cases [of v self] c d yearly_setter_float [of f self]
    yearly_setter_int [of i self] g h
  show ?thesis by (intro conjI)
qed

subsection \<open>The hourly constraint\<close>

lemma float_less_NaN [simp]: "float_less x NaN = False"
  by (cases x) auto

lemma hourly_setter_ok_iff:
  "(fst (hourly_setter v self) = Inr ()) = (hourly_check v = Inr ())"
  by (cases "hourly_check v") (auto simp: hourly_setter_def)

lemma hourly_setter_cases:
  "hourly_setter v self = (Inr (), self\<lparr>hourly := v\<rparr>) \<or> (\<exists>e. hourly_setter v self = (Inl e, self))"
  by (cases "hourly_check v") (auto simp: hourly_setter_def)

lemma bob_checks: "name_check (PStr ''Bob'') = Inr ()"
  "email_check (PStr ''bob@acme-machining.com'') = Inr ()"
  by (simp_all add: name_check_def email_check_def)

lemma Hourly_init_bob:
  "(\<exists>h. Hourly_init (PStr ''Bob'') (PStr ''bob@acme-machining.com'') v cur = (Inr h, cur + 1)
        \<and> hourly h = v) = (hourly_check v = Inr ())"
  by (cases "hourly_check v")
    (auto simp: Hourly_init_def Employee_init_ok bob_checks Employee.defs Hourly.defs)

lemma hourly_in_range_finite:
  "(\<not> float_less (Fin q) (Fin 15) \<and> \<not> float_less (float_of_rat (9999 / 100)) (Fin q))
     = (float_le (Fin 15) (Fin q) \<and> float_le (Fin q) (float_of_rat (9999 / 100)))"
  by (auto simp: float_99_99 float_le_def)

text \<open>
  Claim C5 says that the hourly setter succeeds exactly when the value is an int or a
  float with \<open>15 <= v <= 99.99\<close>. NaN is a float for which neither comparison of the
  claim holds, and it is accepted: the check refuses what is \<open>< 15\<close> or \<open>> 99.99\<close>, and
  no comparison with NaN is true.
\<close>

theorem hourly_setter_counterexample:
  "fst (hourly_setter (PFloat NaN) bob) = Inr ()
   \<and> \<not> (float_le (Fin 15) NaN \<and> float_le NaN (float_of_rat (9999 / 100)))"
  by (simp add: hourly_setter_def hourly_check_def py_or_def py_less_def py_greater_def
      float_le_def)

text \<open>
  Claim C5, amended. The hourly setter, at construction and at a later assignment,
  succeeds exactly when the value is an int from 15 to 99, or a float that is neither
  less than 15 nor greater than \<open>99.99\<close>: a finite float with \<open>15 <= v <= 99.99\<close>, or
  NaN. Then it stores the value; otherwise it raises and the object is as before.
  \<open>14.99\<close> and \<open>100.00\<close> are refused, \<open>15\<close> and \<open>99.99\<close> are accepted.
\<close>

theorem hourly_setter_spec:
  "(fst (hourly_setter v self) = Inr ()) =
     ((\<exists>i. v = PInt i \<and> 15 \<le> i \<and> i \<le> 99)
      \<or> (\<exists>f. v = PFloat f \<and> \<not> float_less f (Fin 15)
               \<and> \<not> float_less (float_of_rat (9999 / 100)) f))
   \<and> (hourly_setter v self = (Inr (), self\<lparr>hourly := v\<rparr>)
        \<or> (\<exists>e. hourly_setter v self = (Inl e, self)))
   \<and> ((\<exists>h. Hourly_init (PStr ''Bob'') (PStr ''bob@acme-machining.com'') v cur = (Inr h, cur + 1)
          \<and> hourly h = v) = (fst (hourly_setter v self) = Inr ()))
   \<and> (fst (hourly_setter (PFloat (Fin q)) self) = Inr ()) =
       (float_le (Fin 15) (Fin q) \<and> float_le (Fin q) (float_of_rat (9999 / 100)))
   \<and> fst (hourly_setter (PFloat NaN) self) = Inr ()
   \<and> hourly_setter (PFloat (float_of_rat (1499 / 100))) self =
       (Inl (ValueError (Msg ''Hourly needs to be between 15 and 99.99.'')), self)
   \<and> hourly_setter (PFloat (Fin 100)) self =
       (Inl (ValueError (Msg ''Hourly needs to be between 15 and 99.99.'')), self)
   \<and> hourly_setter (PInt 15) self = (Inr (), self\<lparr>hourly := PInt 15\<rparr>)
   \<and> hourly_setter (PFloat (float_of_rat (9999 / 100))) self =
       (Inr (), self\<lparr>hourly := PFloat (float_of_rat (9999 / 100))\<rparr>)"
proof -
  have a: "(fst (hourly_setter v self) = Inr ()) =
     ((\<exists>i. v = PInt i \<and> 15 \<le> i \<and> i \<le> 99)
      \<or> (\<exists>f. v = PFloat f \<and> \<not> float_less f (Fin 15)
               \<and> \<not> float_less (float_of_rat (9999 / 100)) f))"
    unfolding hourly_setter_ok_iff by (rule hourly_check_ok_iff)
  have c: "(\<exists>h. Hourly_init (PStr ''Bob'') (PStr ''bob@acme-machining.com'') v cur = (Inr h, cur + 1)
          \<and> hourly h = v) = (fst (hourly_setter v self) = Inr ())"
    unfolding hourly_setter_ok_iff by (rule Hourly_init_bob)
  have d: "(fst (hourly_setter (PFloat (Fin q)) self) = Inr ()) =
       (float_le (Fin 15) (Fin q) \<and> float_le (Fin q) (float_of_rat (9999 / 100)))"
    unfolding hourly_setter_ok_iff hourly_check_ok_iff
    using hourly_in_range_finite [of q] by simp
  have e: "fst (hourly_setter (PFloat NaN) self) = Inr ()"
    unfolding hourly_setter_ok_iff hourly_check_ok_iff by simp
  have f: "hourly_setter (PFloat (float_of_rat (1499 / 100))) self =
       (Inl (ValueError (Msg ''Hourly needs to be between 15 and 99.99.'')), self)"
    by (simp add: hourly_setter_def hourly_check_def py_or_def py_less_def float_14_99)
  have g: "hourly_setter (PFloat (Fin 100)) self =
       (Inl (ValueError (Msg ''Hourly needs to be between 15 and 99.99.'')), self)"
    by (simp add: hourly_setter_def hourly_check_def py_or_def py_less_def py_greater_def
        float_99_99)
  have h: "hourly_setter (PInt 15) self = (Inr (), self\<lparr>hourly := PInt 15\<rparr>)"
    by (simp add: hourly_setter_def hourly_check_def py_or_def py_less_def py_greater_def
        float_99_99)
  have i: "hourly_setter (PFloat (float_of_rat (9999 / 100))) self =
       (Inr (), self\<lparr>hourly := PFloat (float_of_rat (9999 / 100))\<rparr>)"
    by (simp add: hourly_setter_def hourly_check_def py_or_def py_less_def py_greater_def
        float_99_99)
  from a hourly_setter_cases [of v self] c d e f g h i show ?thesis by (intro conjI)
qed

subsection \<open>Weekly pay\<close>

lemma float_40: "float_of_rat 40 = Fin 40"
  by code_simp

lemma float_2000: "float_of_rat 2000 = Fin 2000"
  by code_simp

lemma Employee_init_fields:
  "Employee_init n e cur = (Inr emp, c) \<Longrightarrow> name emp = n \<and> email emp = e"
  by (auto simp: Employee_init_def split: sum.splits)

lemma Salaried_init_yearly:
  "Salaried_init n e y cur = (Inr s, c) \<Longrightarrow> yearly s = y \<and> yearly_check y = Inr ()"
  by (auto simp: Salaried_init_def Employee.defs Salaried.defs split: prod.splits sum.splits)

lemma Hourly_init_hourly:
  "Hourly_init n e h cur = (Inr s, c) \<Longrightarrow> hourly s = h \<and> hourly_check h = Inr ()"
  by (auto simp: Hourly_init_def Employee.defs Hourly.defs split: prod.splits sum.splits)

lemma Executive_init_yearly:
  "Executive_init ver n e y r cur = (Inr s, c) \<Longrightarrow> yearly s = y \<and> yearly_check y = Inr ()"
  by (auto simp: Executive_init_def Salaried.defs dest!: Salaried_init_yearly
      split: prod.splits sum.splits)

lemma Manager_init_yearly:
  "Manager_init ver n e y r cur = (Inr s, c) \<Longrightarrow> yearly s = y \<and> yearly_check y = Inr ()"
  by (auto simp: Manager_init_def Salaried.defs dest!: Salaried_init_yearly
      split: prod.splits sum.splits)

lemma Permanent_init_hourly:
  "Permanent_init fs n e h d cur = (Inr s, c) \<Longrightarrow> hourly s = h \<and> hourly_check h = Inr ()"
  by (auto simp: Permanent_init_def Hourly.defs dest!: Hourly_init_hourly
      split: prod.splits sum.splits)

lemma Temporary_init_hourly:
  "Temporary_init fs n e h d cur = (Inr s, c) \<Longrightarrow> hourly s = h \<and> hourly_check h = Inr ()"
  by (auto simp: Temporary_init_def Hourly.defs dest!: Hourly_init_hourly
      split: prod.splits sum.splits)

text \<open>What a successful construction leaves in the field the pay is computed from.\<close>

lemma construct_rate:
  assumes "construct ver fs k cur = (Inr x, c)"
  shows "if is_salaried x then yearly_check (rate x) = Inr () else hourly_check (rate x) = Inr ()"
  using assms
  by (cases k)
    (auto simp: map_sum_def split: prod.splits sum.splits
      dest!: Salaried_init_yearly Hourly_init_hourly Executive_init_yearly Manager_init_yearly
        Permanent_init_hourly Temporary_init_hourly)

lemma truediv_float: "py_truediv (PFloat f) (Fin 52) = Inr (PFloat (float_div f (Fin 52)))"
  by (simp add: py_truediv_def)

lemma mul_int: "py_mul (PInt i) 40 = Inr (PInt (i * 40))"
  by (simp add: py_mul_def)

lemma mul_float: "py_mul (PFloat f) 40 = Inr (PFloat (float_mul f (Fin 40)))"
  by (simp add: py_mul_def int_to_float_def float_40)

lemma calc_pay_salaried: "is_salaried x \<Longrightarrow> calc_pay x = py_truediv (rate x) (Fin 52)"
  by (cases x) (simp_all add: Salaried_calc_pay_def)

lemma calc_pay_hourly: "\<not> is_salaried x \<Longrightarrow> calc_pay x = py_mul (rate x) 40"
  by (cases x) (simp_all add: Hourly_calc_pay_def)

subsection \<open>Failed assignments\<close>

lemma Employee_init_counter:
  "snd (Employee_init n e cur) =
     (if name_check n = Inr () \<and> email_check e = Inr () then cur + 1 else cur)"
  by (cases "name_check n"; cases "email_check e")
    (auto simp: Employee_init_def image_check_placeholder)

lemma Salaried_init_counter: "snd (Salaried_init n e y cur) = snd (Employee_init n e cur)"
  by (auto simp: Salaried_init_def split: prod.splits sum.splits)

lemma Hourly_init_counter: "snd (Hourly_init n e h cur) = snd (Employee_init n e cur)"
  by (auto simp: Hourly_init_def split: prod.splits sum.splits)

lemma Executive_init_counter:
  "snd (Executive_init ver n e y r cur) = snd (Employee_init n e cur)"
  using Salaried_init_counter [of n e y cur]
  by (auto simp: Executive_init_def split: prod.splits sum.splits)

lemma Manager_init_counter:
  "snd (Manager_init ver n e y d cur) = snd (Employee_init n e cur)"
  using Salaried_init_counter [of n e y cur]
  by (auto simp: Manager_init_def split: prod.splits sum.splits)

lemma Permanent_init_counter:
  "snd (Permanent_init fs n e h d cur) = snd (Employee_init n e cur)"
  using Hourly_init_counter [of n e h cur]
  by (auto simp: Permanent_init_def split: prod.splits sum.splits)

lemma Temporary_init_counter:
  "snd (Temporary_init fs n e h d cur) = snd (Employee_init n e cur)"
  using Hourly_init_counter [of n e h cur]
  by (auto simp: Temporary_init_def split: prod.splits sum.splits)

lemma construct_counter:
  "snd (construct ver fs k cur) =
     (if name_check (call_name k) = Inr () \<and> email_check (call_email k) = Inr ()
      then cur + 1 else cur)"
  by (cases k)
    (simp_all add: case_prod_beta Salaried_init_counter Hourly_init_counter
      Executive_init_counter Manager_init_counter Permanent_init_counter
      Temporary_init_counter Employee_init_counter)

lemma setters_cases:
  "name_setter v a = (Inr (), a\<lparr>name := v\<rparr>) \<or> (\<exists>e. name_setter v a = (Inl e, a))"
  "email_setter v a = (Inr (), a\<lparr>email := v\<rparr>) \<or> (\<exists>e. email_setter v a = (Inl e, a))"
  "image_setter v a = (Inr (), a\<lparr>image_attr := v\<rparr>) \<or> (\<exists>e. image_setter v a = (Inl e, a))"
  "role_setter ver v d = (Inr (), d\<lparr>role := v\<rparr>) \<or> (\<exists>e. role_setter ver v d = (Inl e, d))"
  "department_setter ver v m = (Inr (), m\<lparr>department := v\<rparr>)
     \<or> (\<exists>e. department_setter ver v m = (Inl e, m))"
  "(\<exists>t. hired_date_setter fs v p = (Inr (), p\<lparr>hired_date := t\<rparr>))
     \<or> (\<exists>e. hired_date_setter fs v p = (Inl e, p))"
  "(\<exists>t. last_day_setter fs v q = (Inr (), q\<lparr>last_day := t\<rparr>))
     \<or> (\<exists>e. last_day_setter fs v q = (Inl e, q))"
  by (auto simp: name_setter_def email_setter_def image_setter_def role_setter_def
      department_setter_def hired_date_setter_def last_day_setter_def split: sum.splits)

text \<open>
  Claim C3 says that a failed assignment, in a setter or during construction, leaves
  all state as it was, the identity counter included. \<open>Employee.__init__\<close> takes the
  identity number and increments \<open>CURRENT_ID\<close> before the constructor of the subclass
  assigns its own field: when that assignment fails, the counter has moved.
\<close>

theorem failed_construction_counterexample:
  "Salaried_init (PStr ''Ann'') (PStr ''ann@acme-machining.com'') (PFloat (Fin 1)) 1 =
     (Inl (ValueError (Msg ''Yearly cannot be less than zero or less than 50000.'')), 2)"
  by (simp add: eval_defs)

text \<open>
  Claim C3, amended. A setter that raises leaves the object as it was: each setter
  either stores the value and raises nothing, or raises and returns the object it was
  given. A constructor that raises leaves no instance. The identity counter is advanced
  by a constructor call exactly when the name and the email pass their checks, whether
  or not a later field is refused: a refused name or email leaves it as it was, a
  refused \<open>yearly\<close>, \<open>hourly\<close>, \<open>role\<close>, \<open>department\<close>, \<open>hired_date\<close> or \<open>last_day\<close>
  has used up one identity number.
\<close>

theorem failed_assignment_spec:
  "(name_setter v1 o1 = (Inr (), o1\<lparr>name := v1\<rparr>) \<or> (\<exists>e. name_setter v1 o1 = (Inl e, o1)))
   \<and> (email_setter v2 o2 = (Inr (), o2\<lparr>email := v2\<rparr>) \<or> (\<exists>e. email_setter v2 o2 = (Inl e, o2)))
   \<and> (image_setter v3 o3 = (Inr (), o3\<lparr>image_attr := v3\<rparr>)
        \<or> (\<exists>e. image_setter v3 o3 = (Inl e, o3)))
   \<and> (yearly_setter v4 o4 = (Inr (), o4\<lparr>yearly := v4\<rparr>)
        \<or> (\<exists>e. yearly_setter v4 o4 = (Inl e, o4)))
   \<and> (hourly_setter v5 o5 = (Inr (), o5\<lparr>hourly := v5\<rparr>)
        \<or> (\<exists>e. hourly_setter v5 o5 = (Inl e, o5)))
   \<and> (role_setter ver v6 o6 = (Inr (), o6\<lparr>role := v6\<rparr>)
        \<or> (\<exists>e. role_setter ver v6 o6 = (Inl e, o6)))
   \<and> (department_setter ver v7 o7 = (Inr (), o7\<lparr>department := v7\<rparr>)
        \<or> (\<exists>e. department_setter ver v7 o7 = (Inl e, o7)))
   \<and> ((\<exists>t. hired_date_setter float_str v8 o8 = (Inr (), o8\<lparr>hired_date := t\<rparr>))
        \<or> (\<exists>e. hired_date_setter float_str v8 o8 = (Inl e, o8)))
   \<and> ((\<exists>t. last_day_setter float_str v9 o9 = (Inr (), o9\<lparr>last_day := t\<rparr>))
        \<or> (\<exists>e. last_day_setter float_str v9 o9 = (Inl e, o9)))
   \<and> snd (construct ver float_str k cur) =
       (if name_check (call_name k) = Inr () \<and> email_check (call_email k) = Inr ()
        then cur + 1 else cur)"
  using setters_cases(1) [of v1 o1] setters_cases(2) [of v2 o2] setters_cases(3) [of v3 o3]
    yearly_setter_cases [of v4 o4] hourly_setter_cases [of v5 o5]
    setters_cases(4) [of ver v6 o6] setters_cases(5) [of ver v7 o7]
    setters_cases(6) [of float_str v8 o8] setters_cases(7) [of float_str v9 o9]
    construct_counter [of ver float_str k cur]
  by (intro conjI)

subsection \<open>Weekly pay of an instance in use\<close>

text \<open>Some values of the rounding: \<open>820.0\<close>, the quotient \<open>50000.0 / 52.0\<close>, the literal
  \<open>19.99\<close> and the product \<open>19.99 * 40\<close>.\<close>

lemma float_820: "float_of_rat 820 = Fin 820"
  by code_simp

lemma float_50000_52: "float_of_rat (50000 / 52) = Fin (8457781752123077 / 8796093022208)"
  by code_simp

lemma float_19_99: "float_of_rat (1999 / 100) = Fin (5626684784446013 / 281474976710656)"
  by code_simp

lemma float_19_99_times_40:
  "float_of_rat (5626684784446013 / 281474976710656 * 40) = Fin (1758338995139379 / 2199023255552)"
  by code_simp

lemma yearly_ok_cases:
  assumes "yearly_check v = Inr ()"
  shows "(\<exists>q. v = PFloat (Fin q) \<and> 50000 \<le> q) \<or> v = PFloat PosInf \<or> v = PFloat NaN"
proof -
  from assms obtain f where f: "v = PFloat f" "\<not> float_less f (Fin 50000)"
    by (auto simp: yearly_check_ok_iff)
  then show ?thesis by (cases f) auto
qed

lemma hourly_ok_cases:
  assumes "hourly_check v = Inr ()"
  shows "(\<exists>i. v = PInt i \<and> 15 \<le> i \<and> i \<le> 99)
       \<or> (\<exists>q. v = PFloat (Fin q) \<and> 15 \<le> q \<and> float_le (Fin q) (float_of_rat (9999 / 100)))
       \<or> v = PFloat NaN"
proof -
  from assms consider i where "v = PInt i" "15 \<le> i" "i \<le> 99"
    | f where "v = PFloat f" "\<not> float_less f (Fin 15)"
        "\<not> float_less (float_of_rat (9999 / 100)) f"
    by (auto simp: hourly_check_ok_iff)
  then show ?thesis
  proof cases
    case 1
    then show ?thesis by simp
  next
    case 2
    then show ?thesis by (cases f) (auto simp: float_99_99 float_le_def)
  qed
qed

lemma assign_is_salaried: "is_salaried (snd (assign ver fs a x)) = is_salaried x"
  by (cases a; cases x) simp_all

lemma setters_keep_rate:
  "yearly (snd (name_setter v s)) = yearly s"
  "yearly (snd (email_setter v s)) = yearly s"
  "yearly (snd (image_setter v s)) = yearly s"
  "yearly (snd (role_setter ver v e)) = yearly e"
  "yearly (snd (department_setter ver v m)) = yearly m"
  "hourly (snd (name_setter v h)) = hourly h"
  "hourly (snd (email_setter v h)) = hourly h"
  "hourly (snd (image_setter v h)) = hourly h"
  "hourly (snd (hired_date_setter fs v p)) = hourly p"
  "hourly (snd (last_day_setter fs v t)) = hourly t"
  by (simp_all add: name_setter_def email_setter_def image_setter_def role_setter_def
      department_setter_def hired_date_setter_def last_day_setter_def split: sum.splits)

lemma yearly_setter_keeps:
  "yearly_check (yearly s) = Inr () \<Longrightarrow> yearly_check (yearly (snd (yearly_setter v s))) = Inr ()"
  by (cases "yearly_check v") (simp_all add: yearly_setter_def)

lemma hourly_setter_keeps:
  "hourly_check (hourly s) = Inr () \<Longrightarrow> hourly_check (hourly (snd (hourly_setter v s))) = Inr ()"
  by (cases "hourly_check v") (simp_all add: hourly_setter_def)

lemma assign_rate:
  assumes "if is_salaried x then yearly_check (rate x) = Inr () else hourly_check (rate x) = Inr ()"
  shows "if is_salaried x then yearly_check (rate (snd (assign ver fs a x))) = Inr ()
         else hourly_check (rate (snd (assign ver fs a x))) = Inr ()"
  using assms
  by (cases a; cases x) (simp_all add: setters_keep_rate yearly_setter_keeps hourly_setter_keeps)

lemma assign_all_rate:
  assumes "if is_salaried x then yearly_check (rate x) = Inr () else hourly_check (rate x) = Inr ()"
  shows "is_salaried (snd (assign_all ver fs as x)) = is_salaried x
       \<and> (if is_salaried x then yearly_check (rate (snd (assign_all ver fs as x))) = Inr ()
          else hourly_check (rate (snd (assign_all ver fs as x))) = Inr ())"
  using assms
proof (induction as arbitrary: x)
  case Nil
  then show ?case by simp
next
  case (Cons a as)
  let ?x' = "snd (assign ver fs a x)"
  have s: "is_salaried ?x' = is_salaried x" by (rule assign_is_salaried)
  from assign_rate [OF Cons.prems, of ver fs a]
  have "if is_salaried ?x' then yearly_check (rate ?x') = Inr ()
        else hourly_check (rate ?x') = Inr ()" by (simp add: s)
  from Cons.IH [OF this] s show ?case by (simp add: case_prod_beta)
qed

lemma pay_of_checked:
  assumes "if is_salaried y then yearly_check (rate y) = Inr () else hourly_check (rate y) = Inr ()"
  shows "if is_salaried y
         then (\<exists>q. rate y = PFloat (Fin q) \<and> 50000 \<le> q
                  \<and> calc_pay y = Inr (PFloat (float_of_rat (q / 52))))
            \<or> (rate y = PFloat PosInf \<and> calc_pay y = Inr (PFloat PosInf))
            \<or> (rate y = PFloat NaN \<and> calc_pay y = Inr (PFloat NaN))
         else (\<exists>i. rate y = PInt i \<and> 15 \<le> i \<and> i \<le> 99 \<and> calc_pay y = Inr (PInt (i * 40)))
            \<or> (\<exists>q. rate y = PFloat (Fin q) \<and> 15 \<le> q
                  \<and> float_le (Fin q) (float_of_rat (9999 / 100))
                  \<and> calc_pay y = Inr (PFloat (float_of_rat (q * 40))))
            \<or> (rate y = PFloat NaN \<and> calc_pay y = Inr (PFloat NaN))"
proof (cases "is_salaried y")
  case True
  with assms have "yearly_check (rate y) = Inr ()" by simp
  from yearly_ok_cases [OF this] True show ?thesis
    by (auto simp: calc_pay_salaried py_truediv_def)
next
  case False
  with assms have "hourly_check (rate y) = Inr ()" by simp
  from hourly_ok_cases [OF this] False show ?thesis
    by (auto simp: calc_pay_hourly py_mul_def int_to_float_def float_40)
qed

text \<open>
  Claim C1. Take an instance that a constructor has made and that has since been
  assigned to any number of times, with or without success. If its class is \<open>Salaried\<close>,
  \<open>Executive\<close> or \<open>Manager\<close>, its \<open>yearly\<close> is a float that is not below 50000 and
  \<open>calc_pay\<close> returns \<open>yearly / 52.0\<close>: the double nearest to the exact quotient for a
  finite \<open>yearly\<close>, and \<open>yearly\<close> itself when it is infinite or NaN. If its class is
  \<open>Hourly\<close>, \<open>Permanent\<close> or \<open>Temporary\<close>, its \<open>hourly\<close> is an int from 15 to 99 or a
  float, and \<open>calc_pay\<close> returns \<open>hourly * 40\<close>: the exact product for an int, the double
  nearest to the exact product for a finite float, NaN for NaN. The leaf classes have
  the rule of their parent. A call changes neither the instance nor \<open>CURRENT_ID\<close>, so a
  second call returns what the first returned. With \<open>yearly = 104000.0\<close> the pay is
  \<open>2000.0\<close> and with \<open>hourly = 20\<close> it is \<open>800\<close>; with \<open>yearly = 50000.0\<close> it is the
  double \<open>961.5384615384615\<close>, with \<open>hourly = 20.5\<close> it is \<open>820.0\<close>, and with
  \<open>hourly = 19.99\<close> it is the double \<open>799.5999999999999\<close>.
\<close>

theorem calc_pay_spec:
  assumes "construct ver float_str k cur = (Inr x, c)"
    and "assign_all ver float_str as x = (rs, y)"
  shows "is_salaried y = is_salaried x
       \<and> (if is_salaried y
          then (\<exists>q. rate y = PFloat (Fin q) \<and> 50000 \<le> q
                   \<and> calc_pay y = Inr (PFloat (float_of_rat (q / 52))))
             \<or> (rate y = PFloat PosInf \<and> calc_pay y = Inr (PFloat PosInf))
             \<or> (rate y = PFloat NaN \<and> calc_pay y = Inr (PFloat NaN))
          else (\<exists>i. rate y = PInt i \<and> 15 \<le> i \<and> i \<le> 99 \<and> calc_pay y = Inr (PInt (i * 40)))
             \<or> (\<exists>q. rate y = PFloat (Fin q) \<and> 15 \<le> q
                   \<and> float_le (Fin q) (float_of_rat (9999 / 100))
                   \<and> calc_pay y = Inr (PFloat (float_of_rat (q * 40))))
             \<or> (rate y = PFloat NaN \<and> calc_pay y = Inr (PFloat NaN)))
       \<and> call_calc_pay y c = (calc_pay y, y, c)
       \<and> fst (call_calc_pay (fst (snd (call_calc_pay y c))) (snd (snd (call_calc_pay y c))))
           = fst (call_calc_pay y c)
       \<and> calc_pay (A_Salaried ann) = Inr (PFloat (Fin 2000))
       \<and> calc_pay (An_Hourly bob) = Inr (PInt 800)
       \<and> calc_pay (A_Manager (cy\<lparr>yearly := PFloat (Fin 50000)\<rparr>))
           = Inr (PFloat (Fin (8457781752123077 / 8796093022208)))
       \<and> calc_pay (A_Permanent (di\<lparr>hourly := PFloat (Fin (41 / 2))\<rparr>)) = Inr (PFloat (Fin 820))
       \<and> calc_pay (A_Permanent (di\<lparr>hourly := PFloat (float_of_rat (1999 / 100))\<rparr>))
           = Inr (PFloat (Fin (1758338995139379 / 2199023255552)))"
proof -
  from construct_rate [OF assms(1)]
  have "if is_salaried x then yearly_check (rate x) = Inr () else hourly_check (rate x) = Inr ()" .
  note inv = assign_all_rate [OF this, of ver float_str as]
  have y: "snd (assign_all ver float_str as x) = y" using assms(2) by simp
  from inv have s: "is_salaried y = is_salaried x" unfolding y by simp
  from inv
  have "if is_salaried y then yearly_check (rate y) = Inr () else hourly_check (rate y) = Inr ()"
    unfolding y by (simp split: if_splits)
  note r = pay_of_checked [OF this]
  have p: "call_calc_pay y c = (calc_pay y, y, c)" by (simp add: call_calc_pay_def)
  have q: "fst (call_calc_pay (fst (snd (call_calc_pay y c))) (snd (snd (call_calc_pay y c))))
           = fst (call_calc_pay y c)" by (simp add: call_calc_pay_def)
  have e1: "calc_pay (A_Salaried ann) = Inr (PFloat (Fin 2000))"
    by (simp add: Salaried_calc_pay_def ann_def py_truediv_def float_2000)
  have e2: "calc_pay (An_Hourly bob) = Inr (PInt 800)"
    by (simp add: Hourly_calc_pay_def bob_def py_mul_def)
  have e3: "calc_pay (A_Manager (cy\<lparr>yearly := PFloat (Fin 50000)\<rparr>))
           = Inr (PFloat (Fin (8457781752123077 / 8796093022208)))"
    using float_50000_52 by (simp add: Salaried_calc_pay_def py_truediv_def)
  have e4: "calc_pay (A_Permanent (di\<lparr>hourly := PFloat (Fin (41 / 2))\<rparr>)) = Inr (PFloat (Fin 820))"
    by (simp add: Hourly_calc_pay_def py_mul_def int_to_float_def float_40 float_820)
  have e5: "calc_pay (A_Permanent (di\<lparr>hourly := PFloat (float_of_rat (1999 / 100))\<rparr>))
           = Inr (PFloat (Fin (1758338995139379 / 2199023255552)))"
    using float_19_99_times_40
    by (simp add: Hourly_calc_pay_def py_mul_def int_to_float_def float_40 float_19_99)
  from s r p q e1 e2 e3 e4 e5 show ?thesis by (intro conjI)
qed

theorem calc_pay_spec_witness:
  "construct Py_3_12_or_newer (\<lambda>f. [])
      (New_Salaried (PStr ''Ann'') (PStr ''ann@acme-machining.com'') (PFloat (Fin 60000))) 1
     = (Inr (A_Salaried (ann\<lparr>yearly := PFloat (Fin 60000)\<rparr>)), 2)
   \<and> assign_all Py_3_12_or_newer (\<lambda>f. [])
        [Set_yearly (PInt 3), Set_name (PStr ''Anne''), Set_yearly (PFloat (Fin 104000))]
        (A_Salaried (ann\<lparr>yearly := PFloat (Fin 60000)\<rparr>))
     = ([Inl (ValueError (Msg ''Yearly cannot be less than zero or less than 50000.'')),
         Inr (), Inr ()],
        A_Salaried (ann\<lparr>name := PStr ''Anne''\<rparr>))
   \<and> calc_pay (A_Salaried (ann\<lparr>name := PStr ''Anne''\<rparr>))
       = Inr (PFloat (float_of_rat (104000 / 52)))
   \<and> float_of_rat (104000 / 52) = Fin 2000"
proof -
  let ?x = "A_Salaried (ann\<lparr>yearly := PFloat (Fin 60000)\<rparr>)"
  let ?y = "A_Salaried (ann\<lparr>name := PStr ''Anne''\<rparr>)"
  have h1: "construct Py_3_12_or_newer (\<lambda>f. [])
      (New_Salaried (PStr ''Ann'') (PStr ''ann@acme-machining.com'') (PFloat (Fin 60000))) 1
     = (Inr ?x, 2)"
    by (simp add: eval_defs ann_def)
  have h2: "assign_all Py_3_12_or_newer (\<lambda>f. [])
        [Set_yearly (PInt 3), Set_name (PStr ''Anne''), Set_yearly (PFloat (Fin 104000))] ?x
     = ([Inl (ValueError (Msg ''Yearly cannot be less than zero or less than 50000.'')),
         Inr (), Inr ()], ?y)"
    by (simp add: yearly_setter_int yearly_setter_float name_setter_def name_check_def ann_def)
  have y: "rate ?y = PFloat (Fin 104000)" by (simp add: ann_def)
  have d: "float_of_rat (104000 / 52) = Fin 2000" using float_2000 by simp
  from calc_pay_spec [OF h1 h2] h1 h2 y d show ?thesis by simp
qed

subsection \<open>Role and department\<close>













subsection \<open>Dates\<close>

lemma char_eq_code: "(c = d) = ((of_char c :: nat) = of_char d)"
  by simp

lemma digit_facts:
  assumes "is_digit c"
  shows "0 \<le> digit_val c" "digit_val c \<le> 9" "c \<noteq> CHR ''-''" "c \<noteq> CHR '' ''"
    "(c = CHR ''0'') = (digit_val c = 0)" "(c = CHR ''1'') = (digit_val c = 1)"
    "(c = CHR ''3'') = (digit_val c = 3)"
    "in_range CHR ''1'' CHR ''9'' c = (1 \<le> digit_val c)"
    "in_range CHR ''0'' CHR ''2'' c = (digit_val c \<le> 2)"
    "in_range CHR ''0'' CHR ''1'' c = (digit_val c \<le> 1)"
    "in_range CHR ''1'' CHR ''2'' c = (1 \<le> digit_val c \<and> digit_val c \<le> 2)"
  using assms
  by (auto simp: is_digit_def digit_val_def in_range_def char_eq_code [of c])

lemma in_range_digit:
  "in_range CHR ''1'' CHR ''9'' c \<Longrightarrow> 1 \<le> digit_val c \<and> digit_val c \<le> 9"
  "in_range CHR ''0'' CHR ''2'' c \<Longrightarrow> 0 \<le> digit_val c \<and> digit_val c \<le> 2"
  "in_range CHR ''0'' CHR ''1'' c \<Longrightarrow> 0 \<le> digit_val c \<and> digit_val c \<le> 1"
  "in_range CHR ''1'' CHR ''2'' c \<Longrightarrow> 1 \<le> digit_val c \<and> digit_val c \<le> 2"
  by (auto simp: digit_val_def in_range_def)

lemma month_alts_range:
  assumes "(m, r) \<in> set (month_alts s)"
  shows "1 \<le> m \<and> m \<le> 12"
proof (cases s)
  case Nil
  with assms show ?thesis by (simp add: month_alts_def)
next
  case s: (Cons c1 t)
  show ?thesis
  proof (cases t)
    case Nil
    with s assms show ?thesis
      by (auto simp: month_alts_def split: if_splits dest!: in_range_digit)
  next
    case (Cons c2 u)
    with s assms show ?thesis
      by (auto simp: month_alts_def split: if_splits dest!: in_range_digit)
  qed
qed

lemma match_day_range: "match_day s = Some (d, r) \<Longrightarrow> 1 \<le> d \<and> d \<le> 31"
  by (auto simp: match_day_def is_digit_def digit_val_def split: list.splits if_splits
      dest!: in_range_digit)

lemma after_month_Some:
  "after_month mr = Some (m, d, r) \<Longrightarrow> m = fst mr \<and> 1 \<le> d \<and> d \<le> 31"
  by (auto simp: after_month_def split: list.splits if_splits option.splits
      dest: match_day_range)

lemma match_ymd_range:
  assumes "match_ymd s = Some (y, m, d, r)"
  shows "0 \<le> y \<and> 1 \<le> m \<and> m \<le> 12 \<and> 1 \<le> d \<and> d \<le> 31"
proof -
  from assms obtain y1 y2 y3 y4 c t others where s: "s = y1 # y2 # y3 # y4 # c # t"
    and dg: "is_digit y1" "is_digit y2" "is_digit y3" "is_digit y4"
    and mf: "List.map_filter after_month (month_alts t) = (m, d, r) # others"
    and y: "y = 1000 * digit_val y1 + 100 * digit_val y2 + 10 * digit_val y3 + digit_val y4"
    by (auto simp: match_ymd_def split: list.splits if_splits prod.splits)
  from mf have "(m, d, r) \<in> set (List.map_filter after_month (month_alts t))" by simp
  then obtain mr where mr: "mr \<in> set (month_alts t)" "after_month mr = Some (m, d, r)"
    by (auto simp: List.map_filter_def)
  from after_month_Some [OF mr(2)] have m: "m = fst mr" and d: "1 \<le> d" "d \<le> 31" by auto
  from mr(1) m have "(m, snd mr) \<in> set (month_alts t)" by simp
  from month_alts_range [OF this] have "1 \<le> m" "m \<le> 12" by auto
  moreover from dg y have "0 \<le> y" using digit_facts(1) by fastforce
  ultimately show ?thesis using d by simp
qed

lemma strptime_cases:
  "(\<exists>d. strptime s = Inr d \<and> valid_date (year d) (month d) (day d)
        \<and> hour d = 0 \<and> minute d = 0 \<and> second d = 0)
   \<or> strptime s = Inl (ValueError RuntimeMsg)"
proof (cases "match_ymd s")
  case None
  then show ?thesis by (simp add: strptime_def)
next
  case (Some a)
  then obtain y m d r where a: "match_ymd s = Some (y, m, d, r)" by (cases a) auto
  from match_ymd_range [OF a] a show ?thesis
    by (auto simp: strptime_def valid_date_def)
qed

lemma match_day_two_digits:
  assumes "is_digit d1" "is_digit d2"
  shows "match_day [d1, d2] =
     (if 1 \<le> 10 * digit_val d1 + digit_val d2 \<and> 10 * digit_val d1 + digit_val d2 \<le> 31
      then Some (10 * digit_val d1 + digit_val d2, [])
      else if 1 \<le> digit_val d1 then Some (digit_val d1, [d2]) else None)"
  using digit_facts(1,2) [OF assms(1)] digit_facts(1,2) [OF assms(2)]
  by (auto simp: match_day_def assms digit_facts(3-) [OF assms(1)] digit_facts(3-) [OF assms(2)])

lemma month_two_digits:
  assumes "is_digit m1" "is_digit m2"
  shows "List.map_filter after_month (month_alts (m1 # m2 # CHR ''-'' # r)) =
     (if 1 \<le> 10 * digit_val m1 + digit_val m2 \<and> 10 * digit_val m1 + digit_val m2 \<le> 12
      then (case match_day r of None \<Rightarrow> []
            | Some (d, rest) \<Rightarrow> [(10 * digit_val m1 + digit_val m2, d, rest)])
      else [])"
  using digit_facts(1,2) [OF assms(1)] digit_facts(1,2) [OF assms(2)]
  by (auto simp: month_alts_def after_month_def List.map_filter_def
      digit_facts(3-) [OF assms(1)] digit_facts(3-) [OF assms(2)] split: option.splits)

lemma is_YYYY_MM_DD_D:
  assumes "is_YYYY_MM_DD s"
  shows "\<exists>y1 y2 y3 y4 m1 m2 d1 d2.
      s = [y1, y2, y3, y4, CHR ''-'', m1, m2, CHR ''-'', d1, d2]
      \<and> is_digit y1 \<and> is_digit y2 \<and> is_digit y3 \<and> is_digit y4
      \<and> is_digit m1 \<and> is_digit m2 \<and> is_digit d1 \<and> is_digit d2"
  using assms by (auto simp: is_YYYY_MM_DD_def split: list.splits)

lemma strptime_strict:
  assumes "is_YYYY_MM_DD s"
  shows "strptime s =
     (if valid_date (year_of s) (month_of s) (day_of s)
      then Inr \<lparr>year = year_of s, month = month_of s, day = day_of s,
                hour = 0, minute = 0, second = 0\<rparr>
      else Inl (ValueError RuntimeMsg))"
proof -
  from is_YYYY_MM_DD_D [OF assms] obtain y1 y2 y3 y4 m1 m2 d1 d2 where
    s: "s = [y1, y2, y3, y4, CHR ''-'', m1, m2, CHR ''-'', d1, d2]"
    and y: "is_digit y1" "is_digit y2" "is_digit y3" "is_digit y4"
    and m: "is_digit m1" "is_digit m2" and d: "is_digit d1" "is_digit d2"
    by blast
  let ?y = "1000 * digit_val y1 + 100 * digit_val y2 + 10 * digit_val y3 + digit_val y4"
  let ?m = "10 * digit_val m1 + digit_val m2"
  let ?d = "10 * digit_val d1 + digit_val d2"
  have parts: "year_of s = ?y" "month_of s = ?m" "day_of s = ?d"
    by (simp_all add: s year_of_def month_of_def day_of_def)
  have dim: "days_in_month ?y ?m \<le> 31" by (simp add: days_in_month_def)
  have mt: "match_ymd s =
      (if 1 \<le> ?m \<and> ?m \<le> 12
       then (if 1 \<le> ?d \<and> ?d \<le> 31 then Some (?y, ?m, ?d, [])
             else if 1 \<le> digit_val d1 then Some (?y, ?m, digit_val d1, [d2]) else None)
       else None)"
    by (simp add: s match_ymd_def y month_two_digits [OF m] match_day_two_digits [OF d])
  show ?thesis
    unfolding parts using dim
    by (auto simp: strptime_def mt valid_date_def)
qed

lemma strptime_examples:
  "strptime ''15-01-2020'' = Inl (ValueError RuntimeMsg)"
  "strptime ''2020-1-5'' =
     Inr \<lparr>year = 2020, month = 1, day = 5, hour = 0, minute = 0, second = 0\<rparr>"
  "\<not> is_YYYY_MM_DD ''2020-1-5''"
  "is_YYYY_MM_DD ''2020-01-15''"
  "year_of ''2020-01-15'' = 2020" "month_of ''2020-01-15'' = 1" "day_of ''2020-01-15'' = 15"
  "valid_date 2020 1 15"
  by (simp_all add: strptime_defs is_YYYY_MM_DD_def year_of_def month_of_def day_of_def
      valid_date_def)

lemma di_checks: "name_check (PStr ''Di'') = Inr ()"
  "email_check (PStr ''di@acme-machining.com'') = Inr ()"
  "hourly_check (PInt 20) = Inr ()"
  by (simp_all add: name_check_def email_check_def hourly_check_ok_iff)

lemma Permanent_init_di:
  "Permanent_init fs (PStr ''Di'') (PStr ''di@acme-machining.com'') (PInt 20) v 5 =
     (case strptime (py_str fs v) of
        Inl e \<Rightarrow> (Inl e, 6)
      | Inr d \<Rightarrow> (Inr (di\<lparr>hired_date := d\<rparr>), 6))"
  by (simp add: Permanent_init_def Hourly_init_def Employee_init_ok di_checks di_def
      IMAGE_PLACEHOLDER_def Employee.defs Hourly.defs Permanent.defs split: sum.splits)

lemma tom_checks: "name_check (PStr ''Tom'') = Inr ()"
  "email_check (PStr ''tom@acme-machining.com'') = Inr ()"
  by (simp_all add: name_check_def email_check_def)

lemma Temporary_init_tom:
  "Temporary_init fs (PStr ''Tom'') (PStr ''tom@acme-machining.com'') (PInt 20) v 6 =
     (case strptime (py_str fs v) of
        Inl e \<Rightarrow> (Inl e, 7)
      | Inr d \<Rightarrow> (Inr (tom\<lparr>last_day := d\<rparr>), 7))"
  by (simp add: Temporary_init_def Hourly_init_def Employee_init_ok tom_checks di_checks tom_def
      IMAGE_PLACEHOLDER_def Employee.defs Hourly.defs Temporary.defs split: sum.splits)

text \<open>
  Claim C8 says that the date setters succeed exactly when the value is parseable in
  the form \<open>YYYY-MM-DD\<close>. The text \<open>2020-1-5\<close> is not in that form, and it is accepted:
  the format \<open>%Y-%m-%d\<close> of \<open>strptime\<close> takes a month and a day of one digit.
\<close>

theorem date_setter_counterexample:
  "\<not> is_YYYY_MM_DD ''2020-1-5''
   \<and> hired_date_setter (\<lambda>f. []) (PStr ''2020-1-5'') di =
       (Inr (), di\<lparr>hired_date :=
          \<lparr>year = 2020, month = 1, day = 5, hour = 0, minute = 0, second = 0\<rparr>\<rparr>)"
  by (simp add: hired_date_setter_def strptime_examples)

text \<open>
  Claim C8, amended. Setting \<open>hired_date\<close> on a \<open>Permanent\<close> and \<open>last_day\<close> on a
  \<open>Temporary\<close>, at construction or later, with a text in the form \<open>YYYY-MM-DD\<close> succeeds
  exactly when the text names a date of the calendar (a year from 0001, a month from 01
  to 12, a day the month has), and stores the \<open>datetime\<close> at midnight of that date.
  Whatever text is given, the setter either stores such a \<open>datetime\<close> or raises
  \<open>ValueError\<close> and leaves the object as it was; a value that is not a string is
  turned into text first. \<open>2020-01-15\<close> is accepted and stores January 15, 2020;
  \<open>15-01-2020\<close> is refused. Texts outside the form may be accepted too: \<open>2020-1-5\<close> is.
\<close>

theorem date_setter_spec:
  assumes "is_YYYY_MM_DD s"
  shows "hired_date_setter float_str (PStr s) p =
       (if valid_date (year_of s) (month_of s) (day_of s)
        then (Inr (), p\<lparr>hired_date := \<lparr>year = year_of s, month = month_of s, day = day_of s,
                                          hour = 0, minute = 0, second = 0\<rparr>\<rparr>)
        else (Inl (ValueError RuntimeMsg), p))
     \<and> last_day_setter float_str (PStr s) t =
       (if valid_date (year_of s) (month_of s) (day_of s)
        then (Inr (), t\<lparr>last_day := \<lparr>year = year_of s, month = month_of s, day = day_of s,
                                        hour = 0, minute = 0, second = 0\<rparr>\<rparr>)
        else (Inl (ValueError RuntimeMsg), t))
     \<and> Permanent_init float_str (PStr ''Di'') (PStr ''di@acme-machining.com'') (PInt 20) (PStr s) 5 =
       (if valid_date (year_of s) (month_of s) (day_of s)
        then (Inr (di\<lparr>hired_date := \<lparr>year = year_of s, month = month_of s, day = day_of s,
                                        hour = 0, minute = 0, second = 0\<rparr>\<rparr>), 6)
        else (Inl (ValueError RuntimeMsg), 6))
     \<and> Temporary_init float_str (PStr ''Tom'') (PStr ''tom@acme-machining.com'') (PInt 20) (PStr s) 6 =
       (if valid_date (year_of s) (month_of s) (day_of s)
        then (Inr (tom\<lparr>last_day := \<lparr>year = year_of s, month = month_of s, day = day_of s,
                                       hour = 0, minute = 0, second = 0\<rparr>\<rparr>), 7)
        else (Inl (ValueError RuntimeMsg), 7))
     \<and> ((\<exists>d. hired_date_setter float_str v p = (Inr (), p\<lparr>hired_date := d\<rparr>)
              \<and> valid_date (year d) (month d) (day d)
              \<and> hour d = 0 \<and> minute d = 0 \<and> second d = 0)
          \<or> hired_date_setter float_str v p = (Inl (ValueError RuntimeMsg), p))
     \<and> ((\<exists>d. last_day_setter float_str v t = (Inr (), t\<lparr>last_day := d\<rparr>)
              \<and> valid_date (year d) (month d) (day d)
              \<and> hour d = 0 \<and> minute d = 0 \<and> second d = 0)
          \<or> last_day_setter float_str v t = (Inl (ValueError RuntimeMsg), t))
     \<and> hired_date_setter float_str v p = hired_date_setter float_str (PStr (py_str float_str v)) p
     \<and> hired_date_setter float_str (PStr ''2020-01-15'') p =
         (Inr (), p\<lparr>hired_date :=
            \<lparr>year = 2020, month = 1, day = 15, hour = 0, minute = 0, second = 0\<rparr>\<rparr>)
     \<and> hired_date_setter float_str (PStr ''15-01-2020'') p = (Inl (ValueError RuntimeMsg), p)
     \<and> Permanent_init float_str (PStr ''Di'') (PStr ''di@acme-machining.com'') (PInt 20)
         (PStr ''2020-01-15'') 5 =
         (Inr (di\<lparr>hired_date :=
            \<lparr>year = 2020, month = 1, day = 15, hour = 0, minute = 0, second = 0\<rparr>\<rparr>), 6)
     \<and> Permanent_init float_str (PStr ''Di'') (PStr ''di@acme-machining.com'') (PInt 20)
         (PStr ''15-01-2020'') 5 = (Inl (ValueError RuntimeMsg), 6)
     \<and> hired_date_setter float_str (PStr ''2020-1-5'') p =
         (Inr (), p\<lparr>hired_date :=
            \<lparr>year = 2020, month = 1, day = 5, hour = 0, minute = 0, second = 0\<rparr>\<rparr>)"
proof -
  note st = strptime_strict [OF assms]
  have a: "hired_date_setter float_str (PStr s) p =
       (if valid_date (year_of s) (month_of s) (day_of s)
        then (Inr (), p\<lparr>hired_date := \<lparr>year = year_of s, month = month_of s, day = day_of s,
                                          hour = 0, minute = 0, second = 0\<rparr>\<rparr>)
        else (Inl (ValueError RuntimeMsg), p))"
    by (simp add: hired_date_setter_def st)
  have b: "last_day_setter float_str (PStr s) t =
       (if valid_date (year_of s) (month_of s) (day_of s)
        then (Inr (), t\<lparr>last_day := \<lparr>year = year_of s, month = month_of s, day = day_of s,
                                        hour = 0, minute = 0, second = 0\<rparr>\<rparr>)
        else (Inl (ValueError RuntimeMsg), t))"
    by (simp add: last_day_setter_def st)
  have c: "Permanent_init float_str (PStr ''Di'') (PStr ''di@acme-machining.com'') (PInt 20) (PStr s) 5 =
       (if valid_date (year_of s) (month_of s) (day_of s)
        then (Inr (di\<lparr>hired_date := \<lparr>year = year_of s, month = month_of s, day = day_of s,
                                        hour = 0, minute = 0, second = 0\<rparr>\<rparr>), 6)
        else (Inl (ValueError RuntimeMsg), 6))"
    by (simp add: Permanent_init_di st)
  have c': "Temporary_init float_str (PStr ''Tom'') (PStr ''tom@acme-machining.com'') (PInt 20) (PStr s) 6 =
       (if valid_date (year_of s) (month_of s) (day_of s)
        then (Inr (tom\<lparr>last_day := \<lparr>year = year_of s, month = month_of s, day = day_of s,
                                       hour = 0, minute = 0, second = 0\<rparr>\<rparr>), 7)
        else (Inl (ValueError RuntimeMsg), 7))"
    by (simp add: Temporary_init_tom st)
  have d: "(\<exists>d. hired_date_setter float_str v p = (Inr (), p\<lparr>hired_date := d\<rparr>)
              \<and> valid_date (year d) (month d) (day d)
              \<and> hour d = 0 \<and> minute d = 0 \<and> second d = 0)
          \<or> hired_date_setter float_str v p = (Inl (ValueError RuntimeMsg), p)"
    using strptime_cases [of "py_str float_str v"] by (auto simp: hired_date_setter_def)
  have e: "(\<exists>d. last_day_setter float_str v t = (Inr (), t\<lparr>last_day := d\<rparr>)
              \<and> valid_date (year d) (month d) (day d)
              \<and> hour d = 0 \<and> minute d = 0 \<and> second d = 0)
          \<or> last_day_setter float_str v t = (Inl (ValueError RuntimeMsg), t)"
    using strptime_cases [of "py_str float_str v"] by (auto simp: last_day_setter_def)
  have f: "hired_date_setter float_str v p
      = hired_date_setter float_str (PStr (py_str float_str v)) p"
    by (simp add: hired_date_setter_def)
  have g: "hired_date_setter float_str (PStr ''2020-01-15'') p =
         (Inr (), p\<lparr>hired_date :=
            \<lparr>year = 2020, month = 1, day = 15, hour = 0, minute = 0, second = 0\<rparr>\<rparr>)"
    by (simp add: hired_date_setter_def strptime_2020_01_15)
  have h: "hired_date_setter float_str (PStr ''15-01-2020'') p = (Inl (ValueError RuntimeMsg), p)"
    by (simp add: hired_date_setter_def strptime_examples)
  have i: "Permanent_init float_str (PStr ''Di'') (PStr ''di@acme-machining.com'') (PInt 20)
         (PStr ''2020-01-15'') 5 =
         (Inr (di\<lparr>hired_date :=
            \<lparr>year = 2020, month = 1, day = 15, hour = 0, minute = 0, second = 0\<rparr>\<rparr>), 6)"
    by (simp add: Permanent_init_di strptime_2020_01_15)
  have j: "Permanent_init float_str (PStr ''Di'') (PStr ''di@acme-machining.com'') (PInt 20)
         (PStr ''15-01-2020'') 5 = (Inl (ValueError RuntimeMsg), 6)"
    by (simp add: Permanent_init_di strptime_examples)
  have k: "hired_date_setter float_str (PStr ''2020-1-5'') p =
         (Inr (), p\<lparr>hired_date :=
            \<lparr>year = 2020, month = 1, day = 5, hour = 0, minute = 0, second = 0\<rparr>\<rparr>)"
    by (simp add: hired_date_setter_def strptime_examples)
  from a b c c' d e f g h i j k show ?thesis by (intro conjI)
qed

theorem date_setter_spec_witness:
  "is_YYYY_MM_DD ''2021-02-28'' \<and> valid_date 2021 2 28
   \<and> hired_date_setter (\<lambda>f. []) (PStr ''2021-02-28'') di =
       (Inr (), di\<lparr>hired_date :=
          \<lparr>year = 2021, month = 2, day = 28, hour = 0, minute = 0, second = 0\<rparr>\<rparr>)
   \<and> is_YYYY_MM_DD ''2021-02-29'' \<and> \<not> valid_date 2021 2 29
   \<and> hired_date_setter (\<lambda>f. []) (PStr ''2021-02-29'') di = (Inl (ValueError RuntimeMsg), di)"
proof -
  have h1: "is_YYYY_MM_DD ''2021-02-28''" and h2: "is_YYYY_MM_DD ''2021-02-29''"
    by (simp_all add: is_YYYY_MM_DD_def is_digit_def)
  have v: "valid_date 2021 2 28" "\<not> valid_date 2021 2 29"
    by (simp_all add: valid_date_def days_in_month_def is_leap_def)
  have p: "year_of ''2021-02-28'' = 2021" "month_of ''2021-02-28'' = 2" "day_of ''2021-02-28'' = 28"
    "year_of ''2021-02-29'' = 2021" "month_of ''2021-02-29'' = 2" "day_of ''2021-02-29'' = 29"
    by (simp_all add: year_of_def month_of_def day_of_def digit_val_def)
  from date_setter_spec [OF h1, of "\<lambda>f. []" di, THEN conjunct1]
    date_setter_spec [OF h2, of "\<lambda>f. []" di, THEN conjunct1] h1 h2 v p
  show ?thesis by simp
qed

subsection \<open>Display forms\<close>

lemma repr_str_plain:
  "repr_str ''Cy'' = [CHR 0x27] @ ''Cy'' @ [CHR 0x27]"
  "repr_str ''Eve'' = [CHR 0x27] @ ''Eve'' @ [CHR 0x27]"
  "repr_str ''Di'' = [CHR 0x27] @ ''Di'' @ [CHR 0x27]"
  "repr_str ''cy@acme-machining.com'' = [CHR 0x27] @ ''cy@acme-machining.com'' @ [CHR 0x27]"
  "repr_str ''eve@acme-machining.com'' = [CHR 0x27] @ ''eve@acme-machining.com'' @ [CHR 0x27]"
  "repr_str ''di@acme-machining.com'' = [CHR 0x27] @ ''di@acme-machining.com'' @ [CHR 0x27]"
  "repr_str ''./images/placeholder.png'' = [CHR 0x27] @ ''./images/placeholder.png'' @ [CHR 0x27]"
  by (simp_all add: repr_str_def escape_char_def is_printable_def Let_def)

lemma str_int_values: "str_int 3 = ''3''" "str_int 20 = ''20''"
  "str_datetime \<lparr>year = 2019, month = 6, day = 3, hour = 0, minute = 0, second = 0\<rparr>
     = ''2019-06-03 00:00:00''"
  by code_simp+

text \<open>
  Claim C9. The short form of an instance is its id, a colon and its name. The
  diagnostic form of a \<open>Salaried\<close> or an \<open>Hourly\<close> is the text of the tuple of name, email
  and image, then the yearly or hourly amount; \<open>Executive\<close>, \<open>Permanent\<close> and \<open>Temporary\<close>
  append their own field to the form of their parent. \<open>Manager\<close> does not: its form is
  the form of \<open>Salaried\<close>, the same whatever the department is.
\<close>

theorem manager_repr_omits_department:
  "Manager_repr float_str (m\<lparr>department := d\<rparr>) = Manager_repr float_str m
   \<and> Manager_repr float_str cy =
       ''('' @ [CHR 0x27] @ ''Cy'' @ [CHR 0x27] @ '', '' @ [CHR 0x27] @ ''cy@acme-machining.com''
       @ [CHR 0x27] @ '', '' @ [CHR 0x27] @ ''./images/placeholder.png'' @ [CHR 0x27] @ '')''
       @ '', '' @ float_str (Fin 60000)
   \<and> Executive_repr float_str eve =
       ''('' @ [CHR 0x27] @ ''Eve'' @ [CHR 0x27] @ '', '' @ [CHR 0x27] @ ''eve@acme-machining.com''
       @ [CHR 0x27] @ '', '' @ [CHR 0x27] @ ''./images/placeholder.png'' @ [CHR 0x27] @ '')''
       @ '', '' @ float_str (Fin 200000) @ '',Role.CEO''
   \<and> Permanent_repr float_str di =
       ''('' @ [CHR 0x27] @ ''Di'' @ [CHR 0x27] @ '', '' @ [CHR 0x27] @ ''di@acme-machining.com''
       @ [CHR 0x27] @ '', '' @ [CHR 0x27] @ ''./images/placeholder.png'' @ [CHR 0x27] @ '')''
       @ '', 20, 2019-06-03 00:00:00''
   \<and> Executive_repr float_str (x\<lparr>role := PRole r\<rparr>) =
       Salaried_repr float_str x @ '',Role.'' @ Role_name r
   \<and> Permanent_repr float_str p = Hourly_repr float_str p @ '', '' @ str_datetime (hired_date p)
   \<and> Temporary_repr float_str t = Hourly_repr float_str t @ '', '' @ str_datetime (last_day t)
   \<and> Employee_str (e\<lparr>name := PStr s\<rparr>) = Inr (str_int (id_number e) @ '':'' @ s)
   \<and> Employee_str cy = Inr ''3:Cy''"
proof -
  have a: "Manager_repr float_str (m\<lparr>department := d\<rparr>) = Manager_repr float_str m"
    by (simp add: Manager_repr_def Salaried_repr_def Employee_repr_def)
  have b: "Manager_repr float_str cy =
       ''('' @ [CHR 0x27] @ ''Cy'' @ [CHR 0x27] @ '', '' @ [CHR 0x27] @ ''cy@acme-machining.com''
       @ [CHR 0x27] @ '', '' @ [CHR 0x27] @ ''./images/placeholder.png'' @ [CHR 0x27] @ '')''
       @ '', '' @ float_str (Fin 60000)"
    by (simp add: Manager_repr_def Salaried_repr_def Employee_repr_def str_tuple3_def cy_def
        repr_str_plain)
  have c: "Executive_repr float_str eve =
       ''('' @ [CHR 0x27] @ ''Eve'' @ [CHR 0x27] @ '', '' @ [CHR 0x27] @ ''eve@acme-machining.com''
       @ [CHR 0x27] @ '', '' @ [CHR 0x27] @ ''./images/placeholder.png'' @ [CHR 0x27] @ '')''
       @ '', '' @ float_str (Fin 200000) @ '',Role.CEO''"
    by (simp add: Executive_repr_def Salaried_repr_def Employee_repr_def str_tuple3_def eve_def
        repr_str_plain)
  have d: "Permanent_repr float_str di =
       ''('' @ [CHR 0x27] @ ''Di'' @ [CHR 0x27] @ '', '' @ [CHR 0x27] @ ''di@acme-machining.com''
       @ [CHR 0x27] @ '', '' @ [CHR 0x27] @ ''./images/placeholder.png'' @ [CHR 0x27] @ '')''
       @ '', 20, 2019-06-03 00:00:00''"
    by (simp add: Permanent_repr_def Hourly_repr_def Employee_repr_def str_tuple3_def di_def
        repr_str_plain str_int_values)
  have e: "Executive_repr float_str (x\<lparr>role := PRole r\<rparr>) =
       Salaried_repr float_str x @ '',Role.'' @ Role_name r"
    by (simp add: Executive_repr_def Salaried_repr_def Employee_repr_def)
  have f: "Permanent_repr float_str p = Hourly_repr float_str p @ '', '' @ str_datetime (hired_date p)"
    by (simp add: Permanent_repr_def)
  have g: "Temporary_repr float_str t = Hourly_repr float_str t @ '', '' @ str_datetime (last_day t)"
    by (simp add: Temporary_repr_def)
  have h: "Employee_str (e\<lparr>name := PStr s\<rparr>) = Inr (str_int (id_number e) @ '':'' @ s)"
    by (simp add: Employee_str_def)
  have i: "Employee_str cy = Inr ''3:Cy''"
    by (simp add: Employee_str_def cy_def str_int_values)
  from a b c d e f g h i show ?thesis by (intro conjI)
qed

end
